theory Spec2Isabelle
  imports Complex_Main "HOL-Library.AList"
begin

section \<open>Python values shared by the two modules\<close>

text \<open>
  Except in the allocation stage of the route, which has binary64 floats of its own, Python
  floats are modelled as exact reals: rounding error, infinities and NaN arithmetic are
  outside the model. Where the source tests for NaN (\<^verbatim>\<open>pd.isna\<close>) the input type has
  a NaN constructor; a value that is converted with \<^verbatim>\<open>float(...)\<close> and then used in
  arithmetic is given as the outcome of that conversion.
\<close>

datatype py_error = KeyError | ValueError | IndexError | ZeroDivisionError | LibraryError string

text \<open>Python's \<^verbatim>\<open>a / b\<close> on floats raises on a zero divisor.\<close>

definition py_div :: "real \<Rightarrow> real \<Rightarrow> py_error + real" where
  "py_div a b = (if b = 0 then Inl ZeroDivisionError else Inr (a / b))"

text \<open>\<^verbatim>\<open>round(x, 2)\<close>: to the nearest hundredth, a tie going to the even neighbour.\<close>

definition round2 :: "real \<Rightarrow> real" where
  "round2 x =
     (let y = x * 100; f = \<lfloor>y\<rfloor>; d = y - of_int f
      in of_int (if d < 1 / 2 then f else if 1 / 2 < d then f + 1
                 else if even f then f else f + 1) / 100)"

text \<open>A dictionary read \<^verbatim>\<open>d[k]\<close> (raises KeyError) and \<^verbatim>\<open>d.get(k, default)\<close>.\<close>

definition getitem :: "('k \<times> 'v) list \<Rightarrow> 'k \<Rightarrow> py_error + 'v" where
  "getitem d k = (case map_of d k of None \<Rightarrow> Inl KeyError | Some v \<Rightarrow> Inr v)"

definition dict_get :: "('k \<times> 'v) list \<Rightarrow> 'k \<Rightarrow> 'v \<Rightarrow> 'v" where
  "dict_get d k dflt = (case map_of d k of None \<Rightarrow> dflt | Some v \<Rightarrow> v)"

text \<open>Running a fallible step over a list stops at the first exception.\<close>

fun traverse :: "('a \<Rightarrow> py_error + 'b) \<Rightarrow> 'a list \<Rightarrow> py_error + 'b list" where
  "traverse f [] = Inr []"
| "traverse f (x # xs) =
     (case f x of Inl e \<Rightarrow> Inl e
      | Inr y \<Rightarrow> (case traverse f xs of Inl e \<Rightarrow> Inl e | Inr ys \<Rightarrow> Inr (y # ys)))"

section \<open>portfolio.py: calculate_portfolio_metrics\<close>

text \<open>
  A cell of the holdings table as \<^verbatim>\<open>h.get('price')\<close> sees it: the key is absent or None,
  the empty string, NaN, a number, or a non-empty string together with what
  \<^verbatim>\<open>float\<close> makes of it (\<open>None\<close> when \<^verbatim>\<open>float\<close> raises).
\<close>

datatype cell = Absent | Blank | NaN | Num real | Text "real option"

text \<open>
  \<open>amount\<close> is the outcome of \<^verbatim>\<open>float(h['amount'])\<close>: \<open>None\<close> when it raises.
  \<open>sector\<close> is \<open>None\<close> when the row has no \<^verbatim>\<open>'sector'\<close> key.
\<close>

record holding =
  ticker :: string
  amount :: "real option"
  price :: cell
  sector :: "string option"

text \<open>The fields read from \<^verbatim>\<open>yf.Ticker(t).info\<close>.\<close>

record info =
  regularMarketPrice :: "real option"
  info_sector :: "string option"
  longName :: "string option"

datatype history = HistoryRaises string | HistoryEmpty | HistoryCloses

text \<open>
  The market-data collaborators: \<open>yf_info t\<close> is \<open>None\<close> when the lookup raises;
  \<open>mu\<close> and \<open>cov\<close> are the annualised mean returns and sample covariance that
  pypfopt computes from the fetched closes.
\<close>

record market =
  yf_info :: "string \<Rightarrow> info option"
  yf_history :: "string \<Rightarrow> history"
  mu :: "string \<Rightarrow> real"
  cov :: "string \<Rightarrow> string \<Rightarrow> real"

datatype worth = NotGiven | Given real | Unconvertible

record metrics =
  total_value :: real
  expected_return :: real
  risk_level :: string
  sector_exposure :: "(string \<times> real) list"
  diversification_score :: nat
  volatility :: real

definition resolve_price :: "market \<Rightarrow> holding \<Rightarrow> real" where
  "resolve_price env h =
     (case price h of
        Num r \<Rightarrow> r
      | Text (Some r) \<Rightarrow> r
      | Text None \<Rightarrow> 0
      | _ \<Rightarrow> (case yf_info env (ticker h) of
                None \<Rightarrow> 0
              | Some i \<Rightarrow> (case regularMarketPrice i of None \<Rightarrow> 0 | Some p \<Rightarrow> p)))"

definition resolve_sector :: "market \<Rightarrow> holding \<Rightarrow> string" where
  "resolve_sector env h =
     (if sector h \<noteq> None \<and> sector h \<noteq> Some []
      then (case sector h of Some s \<Rightarrow> s | None \<Rightarrow> ''Other'')
      else (case yf_info env (ticker h) of
              None \<Rightarrow> ''Other''
            | Some i \<Rightarrow> (case info_sector i of
                          None \<Rightarrow> ''Other''
                        | Some s \<Rightarrow> if s = [] then ''Other'' else s)))"

text \<open>The dictionaries \<^verbatim>\<open>amounts\<close>, \<^verbatim>\<open>prices\<close> and \<^verbatim>\<open>sectors\<close>, keyed by ticker: a later row
  with the same ticker overwrites the earlier one.\<close>

fun amounts_of :: "holding list \<Rightarrow> (string \<times> real) list \<Rightarrow> py_error + (string \<times> real) list" where
  "amounts_of [] d = Inr d"
| "amounts_of (h # hs) d =
     (case amount h of
        None \<Rightarrow> Inl ValueError
      | Some a \<Rightarrow> amounts_of hs (AList.update (ticker h) a d))"

definition prices_of :: "market \<Rightarrow> holding list \<Rightarrow> (string \<times> real) list" where
  "prices_of env hs = fold (\<lambda>h d. AList.update (ticker h) (resolve_price env h) d) hs []"

definition sectors_of :: "market \<Rightarrow> holding list \<Rightarrow> (string \<times> string) list" where
  "sectors_of env hs = fold (\<lambda>h d. AList.update (ticker h) (resolve_sector env h) d) hs []"

text \<open>\<^verbatim>\<open>prices[t] * amounts[t]\<close>.\<close>

definition position_value ::
  "(string \<times> real) list \<Rightarrow> (string \<times> real) list \<Rightarrow> string \<Rightarrow> py_error + real" where
  "position_value prices amounts t =
     (case getitem prices t of
        Inl e \<Rightarrow> Inl e
      | Inr p \<Rightarrow> (case getitem amounts t of Inl e \<Rightarrow> Inl e | Inr a \<Rightarrow> Inr (p * a)))"

text \<open>Lines 133 to 142: the computed sum, the override, and the guard against a zero total.\<close>

definition apply_override :: "real \<Rightarrow> worth \<Rightarrow> real" where
  "apply_override computed w = (case w of Given r \<Rightarrow> r | _ \<Rightarrow> computed)"

definition guard_zero :: "real \<Rightarrow> real" where
  "guard_zero tv = (if tv = 0 then 1 else tv)"

text \<open>Lines 145 to 148: the running total per sector, in order of first appearance.\<close>

fun sector_totals_of ::
  "(string \<times> string) list \<Rightarrow> (string \<times> real) list \<Rightarrow> (string \<times> real) list \<Rightarrow> string list
     \<Rightarrow> (string \<times> real) list \<Rightarrow> py_error + (string \<times> real) list" where
  "sector_totals_of sectors prices amounts [] acc = Inr acc"
| "sector_totals_of sectors prices amounts (t # ts) acc =
     (case getitem sectors t of
        Inl e \<Rightarrow> Inl e
      | Inr s \<Rightarrow> (case position_value prices amounts t of
                    Inl e \<Rightarrow> Inl e
                  | Inr v \<Rightarrow> sector_totals_of sectors prices amounts ts
                              (AList.update s (dict_get acc s 0 + v) acc)))"

text \<open>Line 149: \<^verbatim>\<open>{k: round(100 * v / total_value, 2) for k, v in sector_totals.items()}\<close>.\<close>

definition sector_exposure_of :: "(string \<times> real) list \<Rightarrow> real \<Rightarrow> py_error + (string \<times> real) list" where
  "sector_exposure_of sector_totals tv =
     traverse (\<lambda>(k, v). case py_div (100 * v) tv of Inl e \<Rightarrow> Inl e | Inr q \<Rightarrow> Inr (k, round2 q))
       sector_totals"

text \<open>Line 152.\<close>

definition diversification_of :: "(string \<times> string) list \<Rightarrow> string list \<Rightarrow> nat" where
  "diversification_of sectors tickers =
     min 100 (length (remdups (map snd sectors)) * 15 + length tickers * 5)"

text \<open>Line 176: \<^verbatim>\<open>[prices[t] * amounts[t] / total_value for t in tickers]\<close>.\<close>

definition weights_of ::
  "(string \<times> real) list \<Rightarrow> (string \<times> real) list \<Rightarrow> real \<Rightarrow> string list \<Rightarrow> py_error + real list" where
  "weights_of prices amounts tv tickers =
     traverse (\<lambda>t. case position_value prices amounts t of
                      Inl e \<Rightarrow> Inl e
                    | Inr v \<Rightarrow> py_div v tv) tickers"

text \<open>Lines 155 to 164: the fetched frame has a column for each ticker with a non-empty history;
  a lookup that raises is skipped.\<close>

definition history_columns :: "market \<Rightarrow> string list \<Rightarrow> string list" where
  "history_columns env tickers = filter (\<lambda>t. yf_history env t = HistoryCloses) tickers"

text \<open>Lines 180 and 181. \<^verbatim>\<open>mu.loc[tickers]\<close> raises KeyError for a ticker that is not a column.\<close>

definition port_return_of :: "market \<Rightarrow> string list \<Rightarrow> real list \<Rightarrow> real" where
  "port_return_of env tickers ws = (\<Sum>(w, t) \<leftarrow> zip ws tickers. w * mu env t) * 100"

definition port_volatility_of :: "market \<Rightarrow> string list \<Rightarrow> real list \<Rightarrow> real" where
  "port_volatility_of env tickers ws =
     sqrt (\<Sum>(w, t) \<leftarrow> zip ws tickers. w * (\<Sum>(w', t') \<leftarrow> zip ws tickers. cov env t t' * w')) * 100"

definition risk_level_of :: "real \<Rightarrow> string" where
  "risk_level_of v = (if v < 10 then ''Conservative'' else if v < 18 then ''Moderate'' else ''Aggressive'')"

definition calculate_portfolio_metrics ::
  "market \<Rightarrow> holding list \<Rightarrow> worth \<Rightarrow> py_error + metrics" where
  "calculate_portfolio_metrics env holdings total_worth_from_csv =
     (if holdings = [] then
        Inr \<lparr>total_value = 0, expected_return = 0, risk_level = ''N/A'', sector_exposure = [],
             diversification_score = 0, volatility = 0\<rparr>
      else
        let tickers = map ticker holdings in
        case amounts_of holdings [] of Inl e \<Rightarrow> Inl e | Inr amounts \<Rightarrow>
        let prices = prices_of env holdings;
            sectors = sectors_of env holdings in
        case traverse (position_value prices amounts) tickers of Inl e \<Rightarrow> Inl e | Inr vals \<Rightarrow>
        let total = guard_zero (apply_override (sum_list vals) total_worth_from_csv) in
        case sector_totals_of sectors prices amounts tickers [] of Inl e \<Rightarrow> Inl e | Inr sector_totals \<Rightarrow>
        case sector_exposure_of sector_totals total of Inl e \<Rightarrow> Inl e | Inr exposure \<Rightarrow>
        let score = diversification_of sectors tickers in
        if history_columns env tickers = [] then
          Inr \<lparr>total_value = round2 total, expected_return = 0, risk_level = ''N/A'',
               sector_exposure = exposure, diversification_score = score,
               volatility = 0\<rparr>
        else
          case weights_of prices amounts total tickers of Inl e \<Rightarrow> Inl e | Inr weights \<Rightarrow>
          if \<exists>t \<in> set tickers. t \<notin> set (history_columns env tickers) then Inl KeyError
          else
            let port_return = port_return_of env tickers weights;
                port_volatility = port_volatility_of env tickers weights
            in Inr \<lparr>total_value = round2 total, expected_return = round2 port_return,
                    risk_level = risk_level_of port_volatility, sector_exposure = exposure,
                    diversification_score = score,
                    volatility = round2 port_volatility\<rparr>)"

section \<open>portfolio.py: optimize_portfolio\<close>

text \<open>\<^verbatim>\<open>s.split(c)\<close> for a one-character separator, and \<^verbatim>\<open>s.strip()\<close> on ASCII text.\<close>

fun split_on :: "char \<Rightarrow> string \<Rightarrow> string list" where
  "split_on c [] = [[]]"
| "split_on c (x # xs) =
     (if x = c then [] # split_on c xs
      else (case split_on c xs of [] \<Rightarrow> [[x]] | w # ws \<Rightarrow> (x # w) # ws))"

definition is_space :: "char \<Rightarrow> bool" where
  "is_space c = (c \<in> set [CHR '' '', CHR 0x09, CHR 0x0A, CHR 0x0B, CHR 0x0C, CHR 0x0D,
                            CHR 0x1C, CHR 0x1D, CHR 0x1E, CHR 0x1F])"

definition strip :: "string \<Rightarrow> string" where
  "strip s = rev (dropWhile is_space (rev (dropWhile is_space s)))"

text \<open>
  Lines 9 to 22. \<open>to_float\<close> is Python's \<^verbatim>\<open>float\<close> on a string: \<open>None\<close> when it raises
  ValueError. An entry without exactly one colon, or whose amount does not convert, is skipped.
\<close>

definition parse_entry :: "(string \<Rightarrow> real option) \<Rightarrow> string \<Rightarrow> (string \<times> real) option" where
  "parse_entry to_float holding =
     (if CHR '':'' \<notin> set holding then None
      else (case split_on CHR '':'' holding of
              [t, a] \<Rightarrow> (case to_float (strip a) of None \<Rightarrow> None | Some r \<Rightarrow> Some (strip t, r))
            | _ \<Rightarrow> None))"

definition parse_holdings :: "(string \<Rightarrow> real option) \<Rightarrow> string \<Rightarrow> (string \<times> real) list" where
  "parse_holdings to_float holdings_str =
     fold (\<lambda>holding d. case parse_entry to_float holding of
                          None \<Rightarrow> d
                        | Some (t, r) \<Rightarrow> AList.update t r d)
          (map strip (split_on CHR '','' holdings_str)) []"

record allocation =
  a_ticker :: string
  current_amount :: real
  optimal_weight :: real
  optimal_amount :: real

record performance =
  p_expected_return :: real
  p_volatility :: real
  sharpe_ratio :: real

record optimize_result =
  error :: "string option"
  allocations :: "allocation list"
  performance :: "performance option"

text \<open>The handler of line 81: any exception becomes an error result with no allocations.\<close>

definition failed :: "string \<Rightarrow> optimize_result" where
  "failed msg = \<lparr>error = Some msg, allocations = [], performance = None\<rparr>"

text \<open>Lines 35 to 39: the first lookup that raises ends the loop.\<close>

fun fetch_closes :: "(string \<Rightarrow> history) \<Rightarrow> string list \<Rightarrow> string + string list" where
  "fetch_closes hist [] = Inr []"
| "fetch_closes hist (t # ts) =
     (case hist t of
        HistoryRaises msg \<Rightarrow> Inl msg
      | HistoryEmpty \<Rightarrow> fetch_closes hist ts
      | HistoryCloses \<Rightarrow> (case fetch_closes hist ts of Inl e \<Rightarrow> Inl e | Inr cs \<Rightarrow> Inr (t # cs)))"

text \<open>Lines 61 to 69. \<^verbatim>\<open>holdings[ticker]\<close> raises KeyError, whose text is the quoted key.\<close>

fun format_allocations ::
  "(string \<times> real) list \<Rightarrow> (string \<times> real) list \<Rightarrow> (string \<times> real) list \<Rightarrow> string + allocation list" where
  "format_allocations holdings cleaned_weights [] = Inr []"
| "format_allocations holdings cleaned_weights ((t, weight) # rest) =
     (if 0 < weight then
        (case map_of holdings t of
           None \<Rightarrow> Inl ([CHR 0x27] @ t @ [CHR 0x27])
         | Some held \<Rightarrow>
            (case map_of cleaned_weights t of
               None \<Rightarrow> Inl ([CHR 0x27] @ t @ [CHR 0x27])
             | Some w \<Rightarrow>
                (case py_div (held * weight) w of
                   Inl e \<Rightarrow> Inl ''float division by zero''
                 | Inr q \<Rightarrow>
                    (case format_allocations holdings cleaned_weights rest of
                       Inl e \<Rightarrow> Inl e
                     | Inr as \<Rightarrow> Inr (\<lparr>a_ticker = t, current_amount = held,
                                       optimal_weight = round2 (weight * 100),
                                       optimal_amount = round2 q\<rparr> # as)))))
      else format_allocations holdings cleaned_weights rest)"

text \<open>
  \<open>solver cols\<close> stands for lines 49 to 58 on the frame with columns \<open>cols\<close>: pypfopt raises
  (\<open>Inl\<close> the message), or returns the cleaned weights, a dictionary with one entry per key,
  and the performance triple.
\<close>

definition optimize_portfolio ::
  "(string \<Rightarrow> real option) \<Rightarrow> (string \<Rightarrow> history)
     \<Rightarrow> (string list \<Rightarrow> string + (string \<times> real) list \<times> real \<times> real \<times> real)
     \<Rightarrow> string \<Rightarrow> optimize_result" where
  "optimize_portfolio to_float hist solver holdings_str =
     (let holdings = parse_holdings to_float holdings_str in
      if holdings = [] then failed ''Invalid portfolio format. Please use format: AAPL:100,MSFT:50''
      else
        case fetch_closes hist (map fst holdings) of
          Inl msg \<Rightarrow> failed (''Error optimizing portfolio: '' @ msg)
        | Inr cols \<Rightarrow>
           if cols = [] then failed ''Could not fetch stock data''
           else
             case solver cols of
               Inl msg \<Rightarrow> failed (''Error optimizing portfolio: '' @ msg)
             | Inr (cleaned_weights, ret, vol, sharpe) \<Rightarrow>
                (case format_allocations holdings cleaned_weights cleaned_weights of
                   Inl msg \<Rightarrow> failed (''Error optimizing portfolio: '' @ msg)
                 | Inr as \<Rightarrow>
                    \<lparr>error = None, allocations = as,
                     performance = Some \<lparr>p_expected_return = round2 (ret * 100),
                                         p_volatility = round2 (vol * 100),
                                         sharpe_ratio = round2 sharpe\<rparr>\<rparr>))"

section \<open>app.py: the historical-series aggregators\<close>

text \<open>
  A date is a day number. An upstream reply: the request raises, or it has a status code and
  a body; the body is not JSON, or it is the list of bars, each bar giving the date and the
  close that the parsing expressions yield (\<open>None\<close> where the expression raises).
\<close>

type_synonym series = "(int \<times> real) list"

datatype body = NotJson | Json "(int option \<times> real option) list"

datatype http_response = RequestRaises | Response nat body

text \<open>Line 1174: the dictionary comprehension; a bar that does not parse raises.\<close>

fun parse_series :: "(int option \<times> real option) list \<Rightarrow> series \<Rightarrow> series option" where
  "parse_series [] d = Some d"
| "parse_series ((Some day, Some v) # bars) d = parse_series bars (AList.update day v d)"
| "parse_series (_ # bars) d = None"

text \<open>Lines 1167 to 1181 for one ticker: \<open>None\<close> when nothing is stored for it.\<close>

definition alpha_vantage_series :: "http_response \<Rightarrow> int \<Rightarrow> int \<Rightarrow> series option" where
  "alpha_vantage_series resp from_date to_date =
     (case resp of
        RequestRaises \<Rightarrow> None
      | Response status b \<Rightarrow>
          if status = 200 then
            (case b of
               NotJson \<Rightarrow> None
             | Json bars \<Rightarrow>
                 if bars = [] then None
                 else (case parse_series bars [] of
                         None \<Rightarrow> None
                       | Some series \<Rightarrow>
                           let filtered = filter (\<lambda>(d, v). from_date \<le> d \<and> d \<le> to_date) series
                           in if filtered = [] then None else Some filtered))
          else None)"

definition get_alpha_vantage_history_batch ::
  "(string \<Rightarrow> http_response) \<Rightarrow> string list \<Rightarrow> int \<Rightarrow> int \<Rightarrow> (string \<times> series) list" where
  "get_alpha_vantage_history_batch get tickers from_date to_date =
     fold (\<lambda>t all_data. case alpha_vantage_series (get t) from_date to_date of
                           None \<Rightarrow> all_data
                         | Some s \<Rightarrow> AList.update t s all_data) tickers []"

text \<open>
  Line 718: \<^verbatim>\<open>ticker in data.columns and not data[ticker].dropna().empty\<close>. The frame has one
  column per key of \<^verbatim>\<open>all_data\<close>; the non-missing values of a column are the ticker's own series.
\<close>

definition has_data :: "(string \<times> series) list \<Rightarrow> string \<Rightarrow> bool" where
  "has_data data t = (case map_of data t of None \<Rightarrow> False | Some s \<Rightarrow> s \<noteq> [])"

text \<open>Lines 714 to 721: \<^verbatim>\<open>valid_holdings\<close> and \<^verbatim>\<open>failed_tickers\<close>.\<close>

definition split_valid :: "(string \<times> series) list \<Rightarrow> holding list \<Rightarrow> holding list \<times> string list" where
  "split_valid data holdings =
     (filter (\<lambda>h. has_data data (ticker h)) holdings,
      map ticker (filter (\<lambda>h. \<not> has_data data (ticker h)) holdings))"

text \<open>Lines 712 to 721 together.\<close>

definition fetch_and_split ::
  "(string \<Rightarrow> http_response) \<Rightarrow> holding list \<Rightarrow> int \<Rightarrow> int
     \<Rightarrow> (string \<times> series) list \<times> holding list \<times> string list" where
  "fetch_and_split get holdings from_date to_date =
     (let data = get_alpha_vantage_history_batch get (map ticker holdings) from_date to_date
      in (data, split_valid data holdings))"

text \<open>What the process does besides computing: the requests it sends and the seconds it sleeps.\<close>

datatype event = Call nat | Sleep nat

text \<open>Lines 1131 to 1133: the two list comprehensions over the bars.\<close>

definition polygon_series :: "(int option \<times> real option) list \<Rightarrow> series option" where
  "polygon_series results =
     (if \<forall>r \<in> set results. fst r \<noteq> None \<and> snd r \<noteq> None
      then Some (map (\<lambda>r. (case fst r of Some d \<Rightarrow> d | None \<Rightarrow> 0,
                           case snd r of Some c \<Rightarrow> c | None \<Rightarrow> 0)) results)
      else None)"

text \<open>
  Lines 1138 to 1157: the loop over the reduced range, with the number of attempts left and
  the number \<open>k\<close> of the request. \<open>get k\<close> is the reply to the \<open>k\<close>-th request for this ticker.
\<close>

fun reduced_range_attempts ::
  "(nat \<Rightarrow> http_response) \<Rightarrow> nat \<Rightarrow> nat \<Rightarrow> series option \<times> event list" where
  "reduced_range_attempts get 0 k = (None, [])"
| "reduced_range_attempts get (Suc n) k =
     (let (r, log) = reduced_range_attempts get n (Suc k) in
      case get k of
        RequestRaises \<Rightarrow> (r, Call k # Sleep 2 # log)
      | Response status b \<Rightarrow>
          if status = 200 then
            (case b of
               NotJson \<Rightarrow> (r, Call k # Sleep 2 # log)
             | Json results \<Rightarrow>
                 if results = [] then (r, Call k # log)
                 else (case polygon_series results of
                         None \<Rightarrow> (r, Call k # Sleep 2 # log)
                       | Some s \<Rightarrow> (Some s, [Call k])))
          else if status = 429 then (r, Call k # Sleep 5 # log)
          else (r, Call k # log))"

text \<open>Lines 1125 to 1160 for one ticker: the full range first, then the reduced range.\<close>

definition polygon_ticker :: "(nat \<Rightarrow> http_response) \<Rightarrow> series option \<times> event list" where
  "polygon_ticker get =
     (let (r, log) = reduced_range_attempts get 3 1 in
      case get 0 of
        RequestRaises \<Rightarrow> (None, [Call 0])
      | Response status b \<Rightarrow>
          if status = 200 then
            (case b of
               NotJson \<Rightarrow> (None, [Call 0])
             | Json results \<Rightarrow>
                 if results = [] then (r, Call 0 # log)
                 else (case polygon_series results of
                         None \<Rightarrow> (None, [Call 0])
                       | Some s \<Rightarrow> (Some s, [Call 0])))
          else (r, Call 0 # log))"

definition get_polygon_history_batch ::
  "(string \<Rightarrow> nat \<Rightarrow> http_response) \<Rightarrow> string list
     \<Rightarrow> (string \<times> series) list \<times> (string \<times> event list) list" where
  "get_polygon_history_batch get tickers =
     fold (\<lambda>t (all_data, logs).
             let (r, log) = polygon_ticker (get t) in
             (case r of None \<Rightarrow> all_data | Some s \<Rightarrow> AList.update t s all_data,
              logs @ [(t, log)]))
          tickers ([], [])"

section \<open>app.py: groq_generate_content\<close>







section \<open>app.py: the optimization branch of the portfolio route\<close>

text \<open>
  An \<^verbatim>\<open>EfficientFrontier(mu, S)\<close> instance is a collaborator with internal state: what a call
  returns (\<open>Inr\<close>) or raises (\<open>Inl\<close> the message) depends on the calls already made on that
  instance. A \<open>frontier\<close> gives that outcome from the earlier calls and the present one; two
  instances built from the same \<^verbatim>\<open>mu\<close> and \<^verbatim>\<open>S\<close> share it.
\<close>

datatype ef_call = efficient_risk real | min_volatility | max_sharpe

datatype pyval = Dict "(string \<times> real) list" | Scalar real

type_synonym frontier = "ef_call list \<Rightarrow> ef_call \<Rightarrow> string + pyval"

text \<open>
  Lines 757 to 760. Python evaluates the default argument of \<^verbatim>\<open>get\<close> first, so an empty
  dictionary raises IndexError.
\<close>

definition min_vol_value_of :: "pyval \<Rightarrow> string + real" where
  "min_vol_value_of min_vol =
     (case min_vol of
        Scalar r \<Rightarrow> Inr r
      | Dict d \<Rightarrow> (case d of
                    [] \<Rightarrow> Inl ''list index out of range''
                  | (k, v) # rest \<Rightarrow> Inr (dict_get d ''fun'' v)))"

text \<open>
  The two warnings of lines 765 and 769: \<open>TargetTooLow requested used\<close> stands for
  ``Requested target volatility \<open>requested\<close> was too low. Used minimum achievable volatility
  \<open>used\<close> instead.'' and \<open>TargetingFailed\<close> for ``Could not achieve target volatility. Using
  maximum Sharpe ratio portfolio instead.''
\<close>

datatype volatility_warning = TargetTooLow real real | TargetingFailed

record ladder_state =
  used_volatility :: "real option"
  warning_vol :: "volatility_warning option"
  ef :: "ef_call list"

text \<open>Lines 742 to 748.\<close>

definition target_volatility_of :: "string \<Rightarrow> real option" where
  "target_volatility_of risk_tolerance =
     (if risk_tolerance = ''Conservative'' then Some (10 / 100)
      else if risk_tolerance = ''Aggressive'' then None
      else Some (15 / 100))"

text \<open>
  Lines 750 to 769. The result is paired with every call made on the library, in order.
  An exception that no handler of the ladder catches is \<open>Inl\<close>; it reaches the handler of
  line 1008.
\<close>

definition volatility_ladder :: "frontier \<Rightarrow> real \<Rightarrow> (string + ladder_state) \<times> ef_call list" where
  "volatility_ladder lib target_volatility =
     (case lib [] (efficient_risk target_volatility) of
        Inr weights \<Rightarrow>
          (Inr \<lparr>used_volatility = Some target_volatility, warning_vol = None,
                ef = [efficient_risk target_volatility]\<rparr>,
           [efficient_risk target_volatility])
      | Inl e \<Rightarrow>
          (case lib [efficient_risk target_volatility] min_volatility of
             Inl e1 \<Rightarrow> (Inl e1, [efficient_risk target_volatility, min_volatility])
           | Inr min_vol \<Rightarrow>
               (case min_vol_value_of min_vol of
                  Inl e1 \<Rightarrow> (Inl e1, [efficient_risk target_volatility, min_volatility])
                | Inr min_vol_value \<Rightarrow>
                    (case lib [] (efficient_risk min_vol_value) of
                       Inr weights \<Rightarrow>
                         (Inr \<lparr>used_volatility = Some min_vol_value,
                               warning_vol = Some (TargetTooLow target_volatility min_vol_value),
                               ef = [efficient_risk min_vol_value]\<rparr>,
                          [efficient_risk target_volatility, min_volatility,
                           efficient_risk min_vol_value])
                     | Inl e2 \<Rightarrow>
                         (case lib [efficient_risk min_vol_value] max_sharpe of
                            Inr weights \<Rightarrow>
                              (Inr \<lparr>used_volatility = None, warning_vol = Some TargetingFailed,
                                    ef = [efficient_risk min_vol_value, max_sharpe]\<rparr>,
                               [efficient_risk target_volatility, min_volatility,
                                efficient_risk min_vol_value, max_sharpe])
                          | Inl e3 \<Rightarrow>
                              (Inl e3, [efficient_risk target_volatility, min_volatility,
                                        efficient_risk min_vol_value, max_sharpe]))))))"

text \<open>Lines 741 to 773: the Aggressive branch solves for the maximum Sharpe ratio at line 745
  and again, on the same instance, at line 771.\<close>

definition optimization_logic :: "frontier \<Rightarrow> string \<Rightarrow> (string + ladder_state) \<times> ef_call list" where
  "optimization_logic lib risk_tolerance =
     (case target_volatility_of risk_tolerance of
        Some target_volatility \<Rightarrow> volatility_ladder lib target_volatility
      | None \<Rightarrow>
          (case lib [] max_sharpe of
             Inl e \<Rightarrow> (Inl e, [max_sharpe])
           | Inr weights \<Rightarrow>
               (case lib [max_sharpe] max_sharpe of
                  Inl e \<Rightarrow> (Inl e, [max_sharpe, max_sharpe])
                | Inr weights' \<Rightarrow>
                    (Inr \<lparr>used_volatility = None, warning_vol = None,
                          ef = [max_sharpe, max_sharpe]\<rparr>,
                     [max_sharpe, max_sharpe]))))"

text \<open>Line 729: \<^verbatim>\<open>float(h['price'])\<close> raises on None, on the empty string and on text that is
  not a number; NaN converts.\<close>

definition price_converts :: "cell \<Rightarrow> bool" where
  "price_converts c = (case c of Absent \<Rightarrow> False | Blank \<Rightarrow> False | Text None \<Rightarrow> False | _ \<Rightarrow> True)"

datatype 'a http = Http400 string | Http500 string | Http200 'a

record optimization =
  valid_tickers :: "string list"
  failed_tickers :: "string list"
  ladder :: ladder_state

text \<open>
  Lines 714 to 773 of the route. \<open>pypfopt tickers\<close> stands for lines 732 to 739 on the
  columns \<open>tickers\<close> of the frame: the library raises, or gives the behaviour of the instances
  built from \<^verbatim>\<open>mu\<close> and \<^verbatim>\<open>S\<close>. The second component lists the solver calls that were made.
\<close>

definition portfolio_optimize ::
  "(string list \<Rightarrow> string + frontier) \<Rightarrow> string \<Rightarrow> holding list \<Rightarrow> (string \<times> series) list
     \<Rightarrow> optimization http \<times> ef_call list" where
  "portfolio_optimize pypfopt risk_tolerance holdings data =
     (let (valid_holdings, failed) = split_valid data holdings in
      if valid_holdings = [] then (Http400 ''No valid tickers found for optimization'', [])
      else
        let tickers = map ticker valid_holdings in
        if \<exists>h \<in> set valid_holdings. amount h = None then (Http500 ''Error optimizing portfolio'', [])
        else if \<exists>h \<in> set valid_holdings. \<not> price_converts (price h)
        then (Http500 ''Error optimizing portfolio'', [])
        else
          case pypfopt tickers of
            Inl e \<Rightarrow> (Http500 ''Error optimizing portfolio'', [])
          | Inr lib \<Rightarrow>
              (case optimization_logic lib risk_tolerance of
                 (Inl e, calls) \<Rightarrow> (Http500 ''Error optimizing portfolio'', calls)
               | (Inr st, calls) \<Rightarrow>
                   (Http200 \<lparr>valid_tickers = tickers, failed_tickers = failed, ladder = st\<rparr>,
                    calls)))"

section \<open>app.py: allocations and recommended actions\<close>

















definition company_name_of :: "market \<Rightarrow> string \<Rightarrow> string" where
  "company_name_of env t =
     (case yf_info env t of
        None \<Rightarrow> t
      | Some i \<Rightarrow> (case longName i of None \<Rightarrow> t | Some n \<Rightarrow> n))"








section \<open>app.py: merging the tickers suggested in the analysis text\<close>

text \<open>An entry of \<^verbatim>\<open>optimized_allocation\<close> as the merge sees it, its percentage taken
  as an exact real; \<open>o_price\<close> and \<open>shares\<close> are \<open>None\<close> while the entry has no such key,
  and \<open>o_price = Some None\<close> is a null price.\<close>

record optimized_entry =
  o_ticker :: string
  o_company_name :: string
  optimal_percentage :: real
  o_price :: "real option option"
  shares :: "int option"

text \<open>
  The pattern of line 912 on ASCII text: a word character is a letter, a digit or the
  underscore, a word boundary lies between a word character and anything else, so a match
  is a maximal run of word characters that consists of 2 to 5 capital letters.
\<close>

definition is_upper :: "char \<Rightarrow> bool" where
  "is_upper c = (let n = (of_char c :: nat) in 65 \<le> n \<and> n \<le> 90)"

definition is_word_char :: "char \<Rightarrow> bool" where
  "is_word_char c =
     (let n = (of_char c :: nat)
      in (65 \<le> n \<and> n \<le> 90) \<or> (97 \<le> n \<and> n \<le> 122) \<or> (48 \<le> n \<and> n \<le> 57) \<or> n = 95)"

fun word_runs :: "string \<Rightarrow> string \<Rightarrow> string list" where
  "word_runs cur [] = (if cur = [] then [] else [cur])"
| "word_runs cur (c # cs) =
     (if is_word_char c then word_runs (cur @ [c]) cs
      else if cur = [] then word_runs [] cs
      else cur # word_runs [] cs)"

definition ticker_matches :: "string \<Rightarrow> string list" where
  "ticker_matches text =
     filter (\<lambda>w. 2 \<le> length w \<and> length w \<le> 5 \<and> list_all is_upper w) (word_runs [] text)"

text \<open>Lines 911 to 917. The source collects a set, whose order of iteration is not fixed;
  the model lists each suggestion once.\<close>

definition ai_suggested_of :: "optimized_entry list \<Rightarrow> string \<Rightarrow> string list" where
  "ai_suggested_of optimized_allocation ai_analysis =
     remdups (filter (\<lambda>t. t \<notin> set (map o_ticker optimized_allocation) \<and> t \<notin> set [''ETF'', ''AI''])
                     (ticker_matches ai_analysis))"

text \<open>Lines 919 to 924.\<close>

definition per_ticker_pct_of :: "nat \<Rightarrow> real" where
  "per_ticker_pct_of n =
     (if 0 < n then round2 (min 15 (real n * 5) / real n) else 0)"

text \<open>Lines 926 to 948 for one suggested ticker.\<close>

definition suggested_entry :: "market \<Rightarrow> real \<Rightarrow> real \<Rightarrow> string \<Rightarrow> optimized_entry" where
  "suggested_entry env portfolio_value per_ticker_pct t =
     (case yf_info env t of
        None \<Rightarrow> \<lparr>o_ticker = t, o_company_name = t, optimal_percentage = per_ticker_pct,
                 o_price = Some None, shares = Some 0\<rparr>
      | Some i \<Rightarrow>
          \<lparr>o_ticker = t,
           o_company_name = (case longName i of None \<Rightarrow> t | Some n \<Rightarrow> n),
           optimal_percentage = per_ticker_pct,
           o_price = Some (regularMarketPrice i),
           shares = Some (case regularMarketPrice i of
                            None \<Rightarrow> 0
                          | Some p \<Rightarrow> if p \<noteq> 0 \<and> portfolio_value \<noteq> 0
                                      then \<lfloor>per_ticker_pct / 100 * portfolio_value / p\<rfloor> else 0)\<rparr>)"

definition add_ai_suggested :: "market \<Rightarrow> real \<Rightarrow> optimized_entry list \<Rightarrow> string \<Rightarrow> optimized_entry list" where
  "add_ai_suggested env portfolio_value optimized_allocation ai_analysis =
     (let ai_suggested = ai_suggested_of optimized_allocation ai_analysis;
          per_ticker_pct = per_ticker_pct_of (length ai_suggested)
      in optimized_allocation @ map (suggested_entry env portfolio_value per_ticker_pct) ai_suggested)"

text \<open>Lines 950 to 965 for one entry: a missing or null price is looked up, and a missing
  share count is computed from the price.\<close>

definition fill_price_shares :: "market \<Rightarrow> real \<Rightarrow> optimized_entry \<Rightarrow> optimized_entry" where
  "fill_price_shares env portfolio_value entry =
     (let o1 = (if o_price entry = None \<or> o_price entry = Some None
                then entry\<lparr>o_price := Some (case yf_info env (o_ticker entry) of
                                           None \<Rightarrow> None
                                         | Some i \<Rightarrow> regularMarketPrice i)\<rparr>
                else entry)
      in if shares o1 = None
         then o1\<lparr>shares := Some (case o_price o1 of
                                   Some (Some p) \<Rightarrow>
                                     if p \<noteq> 0 \<and> portfolio_value \<noteq> 0
                                     then \<lfloor>optimal_percentage o1 / 100 * portfolio_value / p\<rfloor> else 0
                                 | _ \<Rightarrow> 0)\<rparr>
         else o1)"

text \<open>Lines 908 to 965.\<close>

definition merge_ai_suggestions ::
  "market \<Rightarrow> real \<Rightarrow> optimized_entry list \<Rightarrow> string \<Rightarrow> optimized_entry list" where
  "merge_ai_suggestions env portfolio_value optimized_allocation ai_analysis =
     map (fill_price_shares env portfolio_value)
         (add_ai_suggested env portfolio_value optimized_allocation ai_analysis)"

section \<open>Notions used in the statements, and example inputs\<close>

text \<open>A solver returns dictionaries: the cleaned weights have one entry per ticker.\<close>

definition returns_dictionaries ::
  "(string list \<Rightarrow> string + (string \<times> real) list \<times> real \<times> real \<times> real) \<Rightarrow> bool" where
  "returns_dictionaries solver =
     (\<forall>cols cw r v s. solver cols = Inr (cw, r, v, s) \<longrightarrow> distinct (map fst cw))"

text \<open>A holdings string with two positions, histories that resolve, and a solver that
  returns a 60/40 split.\<close>

definition demo_to_float :: "string \<Rightarrow> real option" where
  "demo_to_float s = (if s = ''100'' then Some 100 else if s = ''50'' then Some 50 else None)"

definition demo_hist :: "string \<Rightarrow> history" where
  "demo_hist t = HistoryCloses"

definition demo_solver :: "string list \<Rightarrow> string + (string \<times> real) list \<times> real \<times> real \<times> real" where
  "demo_solver cols = Inr ([(''AAPL'', 6 / 10), (''MSFT'', 4 / 10)], 12 / 100, 20 / 100, 6 / 10)"







text \<open>When the ladder of lines 750 to 769 ends in an exception: the first attempt raises, and
  then the minimum-variance solve raises, or its return has no first entry, or both the
  retry and the maximum-Sharpe solve raise.\<close>

definition ladder_raises :: "frontier \<Rightarrow> real \<Rightarrow> bool" where
  "ladder_raises lib v =
     (isl (lib [] (efficient_risk v)) \<and>
      (case lib [efficient_risk v] min_volatility of
         Inl e \<Rightarrow> True
       | Inr mv \<Rightarrow> (case min_vol_value_of mv of
                      Inl e \<Rightarrow> True
                    | Inr vmin \<Rightarrow> isl (lib [] (efficient_risk vmin))
                                  \<and> isl (lib [efficient_risk vmin] max_sharpe))))"

text \<open>Two rows with a price history each; a frame in which only the first has one.\<close>

definition demo_rows :: "holding list" where
  "demo_rows =
     [\<lparr>ticker = ''AAPL'', amount = Some 10, price = Num 150, sector = None\<rparr>,
      \<lparr>ticker = ''MSFT'', amount = Some 5, price = Num 300, sector = None\<rparr>]"

definition demo_frame :: "(string \<times> series) list" where
  "demo_frame = [(''AAPL'', [(1, 150), (2, 152)]), (''MSFT'', [(1, 300), (2, 298)])]"

definition partial_frame :: "(string \<times> series) list" where
  "partial_frame = [(''AAPL'', [(1, 150), (2, 152)])]"

text \<open>Three behaviours of the library: every solve succeeds; every solve raises; every
  volatility target is infeasible while the minimum-variance and the maximum-Sharpe solves
  return weights.\<close>

definition feasible_frontier :: frontier where
  "feasible_frontier calls call = Inr (Dict [(''AAPL'', 1 / 2), (''MSFT'', 1 / 2)])"

definition stuck_frontier :: frontier where
  "stuck_frontier calls call = Inl ''solver failed''"

definition fallback_frontier :: frontier where
  "fallback_frontier calls call =
     (case call of
        efficient_risk x \<Rightarrow> Inl ''infeasible''
      | _ \<Rightarrow> Inr (Dict [(''AAPL'', 1 / 2), (''MSFT'', 1 / 2)]))"

definition fallback_pypfopt :: "string list \<Rightarrow> string + frontier" where
  "fallback_pypfopt tickers = Inr fallback_frontier"

definition feasible_pypfopt :: "string list \<Rightarrow> string + frontier" where
  "feasible_pypfopt tickers = Inr feasible_frontier"

definition stuck_pypfopt :: "string list \<Rightarrow> string + frontier" where
  "stuck_pypfopt tickers = Inr stuck_frontier"

text \<open>The scenario of the specification: a provider that has bars for AAPL and none for any
  other symbol, asked for AAPL and the invalid symbol ZZZZ.\<close>

definition demo_get :: "string \<Rightarrow> http_response" where
  "demo_get t =
     (if t = ''AAPL'' then Response 200 (Json [(Some 1, Some 150), (Some 2, Some 152)])
      else Response 200 (Json []))"

definition zz_rows :: "holding list" where
  "zz_rows =
     [\<lparr>ticker = ''AAPL'', amount = Some 10, price = Num 150, sector = None\<rparr>,
      \<lparr>ticker = ''ZZZZ'', amount = Some 5, price = Num 300, sector = None\<rparr>]"






text \<open>The price of a ticker cannot be resolved: the lookup raises, or it has no price.\<close>

definition price_unresolved :: "market \<Rightarrow> string \<Rightarrow> bool" where
  "price_unresolved env t =
     (case yf_info env t of None \<Rightarrow> True | Some i \<Rightarrow> regularMarketPrice i = None)"

text \<open>An optimized allocation of two tickers, and an analysis text that names two new
  symbols beside a held one and a denied one.\<close>

definition held_optimal :: "optimized_entry list" where
  "held_optimal =
     [\<lparr>o_ticker = ''AAPL'', o_company_name = ''AAPL'', optimal_percentage = 60,
       o_price = None, shares = None\<rparr>,
      \<lparr>o_ticker = ''MSFT'', o_company_name = ''MSFT'', optimal_percentage = 40,
       o_price = None, shares = None\<rparr>]"

definition advice :: string where
  "advice = ''Add AA and BB, keep AAPL, no ETF''"

text \<open>An analysis text that names nine symbols, and a market that knows the price of AA
  only.\<close>

definition nine_symbols :: string where
  "nine_symbols = ''AA BB CC DD EE FF GG HH II''"

definition demo_market :: market where
  "demo_market =
     \<lparr>yf_info = (\<lambda>t. if t = ''AA''
                      then Some \<lparr>regularMarketPrice = Some 10, info_sector = Some ''Technology'',
                                 longName = Some ''Alpha''\<rparr>
                      else None),
      yf_history = (\<lambda>t. HistoryEmpty),
      mu = (\<lambda>t. 0),
      cov = (\<lambda>t t'. 0)\<rparr>"

text \<open>
  What the dictionaries of \<open>calculate_portfolio_metrics\<close> hold for a ticker: the values of
  the last row with that ticker. \<open>held_value\<close> is its price times its amount,
  \<open>computed_total\<close> the sum that line 134 computes, \<open>sector_sum\<close> the total of a sector.
\<close>

definition last_row :: "holding list \<Rightarrow> string \<Rightarrow> holding option" where
  "last_row hs t = find (\<lambda>h. ticker h = t) (rev hs)"

definition amount_of :: "holding \<Rightarrow> real" where
  "amount_of h = (case amount h of None \<Rightarrow> 0 | Some a \<Rightarrow> a)"

definition held_value :: "market \<Rightarrow> holding list \<Rightarrow> string \<Rightarrow> real" where
  "held_value env hs t =
     (case last_row hs t of None \<Rightarrow> 0 | Some h \<Rightarrow> resolve_price env h * amount_of h)"

definition held_sector :: "market \<Rightarrow> holding list \<Rightarrow> string \<Rightarrow> string" where
  "held_sector env hs t =
     (case last_row hs t of None \<Rightarrow> ''Other'' | Some h \<Rightarrow> resolve_sector env h)"

definition computed_total :: "market \<Rightarrow> holding list \<Rightarrow> real" where
  "computed_total env hs = (\<Sum>t \<leftarrow> map ticker hs. held_value env hs t)"

definition sector_sum :: "market \<Rightarrow> holding list \<Rightarrow> string \<Rightarrow> real" where
  "sector_sum env hs s =
     (\<Sum>t \<leftarrow> filter (\<lambda>t. held_sector env hs t = s) (map ticker hs). held_value env hs t)"

text \<open>The divisor of lines 149 and 176.\<close>

definition divisor :: "market \<Rightarrow> holding list \<Rightarrow> worth \<Rightarrow> real" where
  "divisor env hs w = guard_zero (apply_override (computed_total env hs) w)"

text \<open>The function returns, rather than raises, when every amount converts and the price
  history resolves for all tickers or for none.\<close>

definition metrics_defined :: "market \<Rightarrow> holding list \<Rightarrow> bool" where
  "metrics_defined env hs =
     (list_all (\<lambda>h. amount h \<noteq> None) hs
      \<and> (list_all (\<lambda>h. yf_history env (ticker h) = HistoryCloses) hs
         \<or> list_all (\<lambda>h. yf_history env (ticker h) \<noteq> HistoryCloses) hs))"

text \<open>Three rows in two sectors; the price of the last one does not resolve.\<close>

definition sector_rows :: "holding list" where
  "sector_rows =
     [\<lparr>ticker = ''AAPL'', amount = Some 10, price = Num 150, sector = Some ''Technology''\<rparr>,
      \<lparr>ticker = ''MSFT'', amount = Some 5, price = Num 300, sector = Some ''Technology''\<rparr>,
      \<lparr>ticker = ''JPM'', amount = Some 20, price = Blank, sector = Some ''Financial''\<rparr>]"

text \<open>
  A maximal run of word characters of a text: a non-empty stretch of word characters with a
  word boundary on each side, that is, with no word character next to it.
\<close>

definition maximal_run :: "string \<Rightarrow> string \<Rightarrow> bool" where
  "maximal_run text w =
     (w \<noteq> [] \<and> list_all is_word_char w
      \<and> (\<exists>pre post. text = pre @ w @ post
            \<and> (pre = [] \<or> \<not> is_word_char (last pre))
            \<and> (post = [] \<or> \<not> is_word_char (hd post))))"

section \<open>optimize_portfolio: the reported optimal amount\<close>

lemma format_allocations_amounts:
  "format_allocations holdings cw items = Inr as \<Longrightarrow>
   \<forall>(t, w) \<in> set items. map_of cw t = Some w \<Longrightarrow>
   \<forall>a \<in> set as. optimal_amount a = round2 (current_amount a)
       \<and> map_of holdings (a_ticker a) = Some (current_amount a)"
proof (induction items arbitrary: as)
  case Nil
  then show ?case by simp
next
  case (Cons p items)
  obtain t w where p: "p = (t, w)" by (cases p)
  show ?case
  proof (cases "0 < w")
    case False
    with Cons p show ?thesis by simp
  next
    case True
    with Cons.prems p show ?thesis
      using Cons.IH
      by (auto simp: py_div_def split: option.splits sum.splits if_splits)
  qed
qed

text \<open>
  C9: every allocation entry that \<open>optimize_portfolio\<close> returns has an optimal amount equal
  to its current amount rounded to two decimals, the amount held for that ticker: the
  quotient \<open>weight / cleaned_weights[ticker]\<close> is 1, so the optimized weight does not enter.
  The cleaned weights are a dictionary, with one entry per ticker.
\<close>

theorem optimal_amount_is_current_amount:
  assumes dict: "returns_dictionaries solver"
  shows "\<forall>a \<in> set (allocations (optimize_portfolio to_float hist solver holdings_str)).
           optimal_amount a = round2 (current_amount a)
           \<and> map_of (parse_holdings to_float holdings_str) (a_ticker a) = Some (current_amount a)"
proof -
  let ?hold = "parse_holdings to_float holdings_str"
  have fmt: "\<forall>a \<in> set as. optimal_amount a = round2 (current_amount a)
                \<and> map_of ?hold (a_ticker a) = Some (current_amount a)"
    if "solver cols = Inr (cw, r, v, s)" and "format_allocations ?hold cw cw = Inr as"
    for cols cw r v s as
  proof -
    have "distinct (map fst cw)" using dict that(1) unfolding returns_dictionaries_def by blast
    then have "\<forall>(t, w) \<in> set cw. map_of cw t = Some w" by auto
    with that(2) show ?thesis by (rule format_allocations_amounts)
  qed
  show ?thesis
    unfolding optimize_portfolio_def Let_def failed_def
    using fmt by (auto split: sum.splits prod.splits)
qed

lemma demo_allocations:
  "allocations (optimize_portfolio demo_to_float demo_hist demo_solver ''AAPL:100,MSFT:50'')
     = [\<lparr>a_ticker = ''AAPL'', current_amount = 100, optimal_weight = 60, optimal_amount = 100\<rparr>,
        \<lparr>a_ticker = ''MSFT'', current_amount = 50, optimal_weight = 40, optimal_amount = 50\<rparr>]"
  by (simp add: optimize_portfolio_def parse_holdings_def parse_entry_def strip_def is_space_def
      demo_to_float_def demo_hist_def demo_solver_def py_div_def round2_def Let_def)

theorem optimal_amount_is_current_amount_witness:
  "returns_dictionaries demo_solver
   \<and> allocations (optimize_portfolio demo_to_float demo_hist demo_solver ''AAPL:100,MSFT:50'')
       = [\<lparr>a_ticker = ''AAPL'', current_amount = 100, optimal_weight = 60, optimal_amount = 100\<rparr>,
          \<lparr>a_ticker = ''MSFT'', current_amount = 50, optimal_weight = 40, optimal_amount = 50\<rparr>]
   \<and> list_all (\<lambda>a. optimal_amount a = round2 (current_amount a))
        (allocations (optimize_portfolio demo_to_float demo_hist demo_solver ''AAPL:100,MSFT:50''))"
proof -
  have d: "returns_dictionaries demo_solver"
    by (auto simp: returns_dictionaries_def demo_solver_def)
  from optimal_amount_is_current_amount [OF d, of demo_to_float demo_hist "''AAPL:100,MSFT:50''"]
  have "list_all (\<lambda>a. optimal_amount a = round2 (current_amount a))
        (allocations (optimize_portfolio demo_to_float demo_hist demo_solver ''AAPL:100,MSFT:50''))"
    unfolding list_all_iff by blast
  with d demo_allocations show ?thesis by blast
qed

section \<open>Dictionaries built in a loop\<close>

lemma find_snoc:
  "find P (xs @ [x]) = (case find P xs of None \<Rightarrow> if P x then Some x else None | Some y \<Rightarrow> Some y)"
  by (induction xs) auto

lemma find_SomeD: "find P xs = Some x \<Longrightarrow> x \<in> set xs \<and> P x"
  by (induction xs) (auto split: if_splits)

lemma map_of_fold_update:
  "map_of (fold (\<lambda>x d. AList.update (k x) (v x) d) xs d0) t =
     (case find (\<lambda>x. k x = t) (rev xs) of None \<Rightarrow> map_of d0 t | Some x \<Rightarrow> Some (v x))"
proof (induction xs arbitrary: d0)
  case Nil
  show ?case by simp
next
  case (Cons x xs)
  show ?case
    by (simp add: Cons.IH find_snoc AList.update_conv' split: option.splits)
qed

section \<open>The recommended actions\<close>































section \<open>The optimization branch: the volatility ladder and its precondition\<close>

lemma route_on_ladder:
  assumes v: "fst (split_valid data holdings) \<noteq> []"
    and conv: "list_all (\<lambda>h. amount h \<noteq> None \<and> price_converts (price h))
                 (fst (split_valid data holdings))"
    and lib: "pypfopt (map ticker (fst (split_valid data holdings))) = Inr lib"
    and target: "target_volatility_of risk_tolerance = Some v"
  shows "portfolio_optimize pypfopt risk_tolerance holdings data =
           (case volatility_ladder lib v of
              (Inl e, calls) \<Rightarrow> (Http500 ''Error optimizing portfolio'', calls)
            | (Inr st, calls) \<Rightarrow>
                (Http200 \<lparr>valid_tickers = map ticker (fst (split_valid data holdings)),
                          failed_tickers = snd (split_valid data holdings), ladder = st\<rparr>,
                 calls))"
proof -
  obtain valid missing where s: "split_valid data holdings = (valid, missing)"
    by (cases "split_valid data holdings")
  from conv s have "\<not> (\<exists>h \<in> set valid. amount h = None)"
    and "\<not> (\<exists>h \<in> set valid. \<not> price_converts (price h))"
    by (auto simp: list_all_iff)
  with v lib target s show ?thesis
    by (cases "volatility_ladder lib v")
       (auto simp: portfolio_optimize_def optimization_logic_def Let_def split: sum.splits)
qed

text \<open>
  C1, as the code has it: a feasible target is used as requested, with no warning. When the
  first attempt raises, a minimum-variance solve is run; a result reached from there either
  comes from a retry of the volatility targeting on a fresh instance, with the warning that
  the requested target was too low, or, that retry having raised, from the maximum-Sharpe
  solve, with the warning that targeting failed. The ladder ends in an exception, and not in
  a result, exactly when \<open>ladder_raises\<close> holds: the minimum-variance step and the last
  maximum-Sharpe solve have no handler of their own. On the route, with valid tickers whose
  rows convert, that exception is answered with the error ``Error optimizing portfolio''
  (status 500), and a result of the ladder is the result of the route.
\<close>

theorem volatility_ladder_outcomes:
  "(lib [] (efficient_risk v) = Inr w \<longrightarrow>
      volatility_ladder lib v
        = (Inr \<lparr>used_volatility = Some v, warning_vol = None, ef = [efficient_risk v]\<rparr>,
           [efficient_risk v]))
   \<and> (lib [] (efficient_risk v) = Inl e \<longrightarrow>
        take 2 (snd (volatility_ladder lib v)) = [efficient_risk v, min_volatility])
   \<and> (lib [] (efficient_risk v) = Inl e \<and> fst (volatility_ladder lib v) = Inr st \<longrightarrow>
        (\<exists>v'. (\<exists>w'. lib [] (efficient_risk v') = Inr w')
              \<and> st = \<lparr>used_volatility = Some v', warning_vol = Some (TargetTooLow v v'),
                       ef = [efficient_risk v']\<rparr>
              \<and> snd (volatility_ladder lib v)
                  = [efficient_risk v, min_volatility, efficient_risk v'])
        \<or> (\<exists>v'. (\<exists>e'. lib [] (efficient_risk v') = Inl e')
                \<and> (\<exists>w'. lib [efficient_risk v'] max_sharpe = Inr w')
                \<and> st = \<lparr>used_volatility = None, warning_vol = Some TargetingFailed,
                         ef = [efficient_risk v', max_sharpe]\<rparr>
                \<and> snd (volatility_ladder lib v)
                    = [efficient_risk v, min_volatility, efficient_risk v', max_sharpe]))
   \<and> (isl (fst (volatility_ladder lib v)) = ladder_raises lib v)
   \<and> (fst (split_valid data holdings) \<noteq> []
        \<and> list_all (\<lambda>h. amount h \<noteq> None \<and> price_converts (price h)) (fst (split_valid data holdings))
        \<and> pypfopt (map ticker (fst (split_valid data holdings))) = Inr lib
        \<and> target_volatility_of risk_tolerance = Some v \<longrightarrow>
        (ladder_raises lib v \<longrightarrow>
           fst (portfolio_optimize pypfopt risk_tolerance holdings data)
             = Http500 ''Error optimizing portfolio'')
        \<and> (\<not> ladder_raises lib v \<longrightarrow>
             (\<exists>st'. fst (volatility_ladder lib v) = Inr st'
                   \<and> fst (portfolio_optimize pypfopt risk_tolerance holdings data)
                       = Http200 \<lparr>valid_tickers = map ticker (fst (split_valid data holdings)),
                                  failed_tickers = snd (split_valid data holdings),
                                  ladder = st'\<rparr>)))"
proof (intro conjI impI)
  assume "lib [] (efficient_risk v) = Inr w"
  then show "volatility_ladder lib v
        = (Inr \<lparr>used_volatility = Some v, warning_vol = None, ef = [efficient_risk v]\<rparr>,
           [efficient_risk v])"
    by (simp add: volatility_ladder_def)
next
  assume "lib [] (efficient_risk v) = Inl e"
  then show "take 2 (snd (volatility_ladder lib v)) = [efficient_risk v, min_volatility]"
    by (simp add: volatility_ladder_def split: sum.splits)
next
  assume "lib [] (efficient_risk v) = Inl e \<and> fst (volatility_ladder lib v) = Inr st"
  then have a: "lib [] (efficient_risk v) = Inl e" "fst (volatility_ladder lib v) = Inr st"
    by simp_all
  then obtain mv vmin where mv: "lib [efficient_risk v] min_volatility = Inr mv"
    and vmin: "min_vol_value_of mv = Inr vmin"
    by (auto simp: volatility_ladder_def split: sum.splits)
  show "(\<exists>v'. (\<exists>w'. lib [] (efficient_risk v') = Inr w')
              \<and> st = \<lparr>used_volatility = Some v', warning_vol = Some (TargetTooLow v v'),
                       ef = [efficient_risk v']\<rparr>
              \<and> snd (volatility_ladder lib v)
                  = [efficient_risk v, min_volatility, efficient_risk v'])
        \<or> (\<exists>v'. (\<exists>e'. lib [] (efficient_risk v') = Inl e')
                \<and> (\<exists>w'. lib [efficient_risk v'] max_sharpe = Inr w')
                \<and> st = \<lparr>used_volatility = None, warning_vol = Some TargetingFailed,
                         ef = [efficient_risk v', max_sharpe]\<rparr>
                \<and> snd (volatility_ladder lib v)
                    = [efficient_risk v, min_volatility, efficient_risk v', max_sharpe])"
  proof (cases "lib [] (efficient_risk vmin)")
    case (Inr w')
    with a mv vmin have "st = \<lparr>used_volatility = Some vmin,
          warning_vol = Some (TargetTooLow v vmin), ef = [efficient_risk vmin]\<rparr>"
      and "snd (volatility_ladder lib v) = [efficient_risk v, min_volatility, efficient_risk vmin]"
      by (simp_all add: volatility_ladder_def)
    with Inr show ?thesis by blast
  next
    case (Inl e')
    with a mv vmin obtain w' where w': "lib [efficient_risk vmin] max_sharpe = Inr w'"
      by (auto simp: volatility_ladder_def split: sum.splits)
    with a mv vmin Inl have "st = \<lparr>used_volatility = None, warning_vol = Some TargetingFailed,
          ef = [efficient_risk vmin, max_sharpe]\<rparr>"
      and "snd (volatility_ladder lib v)
             = [efficient_risk v, min_volatility, efficient_risk vmin, max_sharpe]"
      by (simp_all add: volatility_ladder_def)
    with Inl w' show ?thesis by blast
  qed
next
  show "isl (fst (volatility_ladder lib v)) = ladder_raises lib v"
    by (simp add: volatility_ladder_def ladder_raises_def split: sum.splits)
next
  assume r: "fst (split_valid data holdings) \<noteq> []
        \<and> list_all (\<lambda>h. amount h \<noteq> None \<and> price_converts (price h)) (fst (split_valid data holdings))
        \<and> pypfopt (map ticker (fst (split_valid data holdings))) = Inr lib
        \<and> target_volatility_of risk_tolerance = Some v"
  have raises: "isl (fst (volatility_ladder lib v)) = ladder_raises lib v"
    by (simp add: volatility_ladder_def ladder_raises_def split: sum.splits)
  from r have route: "portfolio_optimize pypfopt risk_tolerance holdings data =
           (case volatility_ladder lib v of
              (Inl e, calls) \<Rightarrow> (Http500 ''Error optimizing portfolio'', calls)
            | (Inr st, calls) \<Rightarrow>
                (Http200 \<lparr>valid_tickers = map ticker (fst (split_valid data holdings)),
                          failed_tickers = snd (split_valid data holdings), ladder = st\<rparr>,
                 calls))"
    by (intro route_on_ladder) simp_all
  show "fst (portfolio_optimize pypfopt risk_tolerance holdings data)
             = Http500 ''Error optimizing portfolio''" if "ladder_raises lib v"
    using that raises unfolding route
    by (cases "volatility_ladder lib v") (auto split: sum.splits)
  show "\<exists>st'. fst (volatility_ladder lib v) = Inr st'
                   \<and> fst (portfolio_optimize pypfopt risk_tolerance holdings data)
                       = Http200 \<lparr>valid_tickers = map ticker (fst (split_valid data holdings)),
                                  failed_tickers = snd (split_valid data holdings),
                                  ladder = st'\<rparr>" if "\<not> ladder_raises lib v"
    using that raises unfolding route
    by (cases "volatility_ladder lib v") (auto split: sum.splits)
qed

theorem volatility_ladder_outcomes_witness:
  "fallback_frontier [] (efficient_risk (15 / 100)) = Inl ''infeasible''
   \<and> take 2 (snd (volatility_ladder fallback_frontier (15 / 100)))
       = [efficient_risk (15 / 100), min_volatility]
   \<and> fst (volatility_ladder fallback_frontier (15 / 100))
       = Inr \<lparr>used_volatility = None, warning_vol = Some TargetingFailed,
              ef = [efficient_risk (1 / 2), max_sharpe]\<rparr>
   \<and> (\<exists>v'. (\<exists>e'. fallback_frontier [] (efficient_risk v') = Inl e')
           \<and> (\<exists>w'. fallback_frontier [efficient_risk v'] max_sharpe = Inr w')
           \<and> snd (volatility_ladder fallback_frontier (15 / 100))
               = [efficient_risk (15 / 100), min_volatility, efficient_risk v', max_sharpe])
   \<and> length (fst (split_valid demo_frame demo_rows)) = 2
   \<and> list_all (\<lambda>h. amount h \<noteq> None \<and> price_converts (price h)) (fst (split_valid demo_frame demo_rows))
   \<and> fallback_pypfopt (map ticker (fst (split_valid demo_frame demo_rows))) = Inr fallback_frontier
   \<and> target_volatility_of ''Moderate'' = Some (15 / 100)
   \<and> \<not> ladder_raises fallback_frontier (15 / 100)
   \<and> fst (portfolio_optimize fallback_pypfopt ''Moderate'' demo_rows demo_frame)
       = Http200 \<lparr>valid_tickers = [''AAPL'', ''MSFT''], failed_tickers = [],
                  ladder = \<lparr>used_volatility = None, warning_vol = Some TargetingFailed,
                            ef = [efficient_risk (1 / 2), max_sharpe]\<rparr>\<rparr>"
proof -
  let ?st = "\<lparr>used_volatility = None, warning_vol = Some TargetingFailed,
              ef = [efficient_risk (1 / 2), max_sharpe]\<rparr>"
  note outcomes = volatility_ladder_outcomes [where lib = fallback_frontier and v = "15 / 100"
      and e = "''infeasible''" and st = ?st and data = demo_frame and holdings = demo_rows
      and pypfopt = fallback_pypfopt and risk_tolerance = "''Moderate''"]
  have a: "fallback_frontier [] (efficient_risk (15 / 100)) = Inl ''infeasible''"
    by (simp add: fallback_frontier_def)
  have st: "fst (volatility_ladder fallback_frontier (15 / 100)) = Inr ?st"
    by (simp add: volatility_ladder_def fallback_frontier_def min_vol_value_of_def dict_get_def)
  have sv: "split_valid demo_frame demo_rows = (demo_rows, [])"
    by (simp add: split_valid_def has_data_def demo_frame_def demo_rows_def)
  have l: "length (fst (split_valid demo_frame demo_rows)) = 2"
    by (simp add: sv) (simp add: demo_rows_def)
  have c: "list_all (\<lambda>h. amount h \<noteq> None \<and> price_converts (price h))
             (fst (split_valid demo_frame demo_rows))"
    by (simp add: sv) (simp add: demo_rows_def price_converts_def)
  have p: "fallback_pypfopt (map ticker (fst (split_valid demo_frame demo_rows))) = Inr fallback_frontier"
    by (simp add: fallback_pypfopt_def)
  have t: "target_volatility_of ''Moderate'' = Some (15 / 100)"
    by (simp add: target_volatility_of_def)
  have tickers: "map ticker (fst (split_valid demo_frame demo_rows)) = [''AAPL'', ''MSFT'']"
    "snd (split_valid demo_frame demo_rows) = []"
    by (simp_all add: sv) (simp add: demo_rows_def)
  from l have ne: "fst (split_valid demo_frame demo_rows) \<noteq> []" by auto
  from outcomes a have two: "take 2 (snd (volatility_ladder fallback_frontier (15 / 100)))
       = [efficient_risk (15 / 100), min_volatility]"
    by blast
  from outcomes a st have
    "(\<exists>v'. (\<exists>w'. fallback_frontier [] (efficient_risk v') = Inr w')
              \<and> ?st = \<lparr>used_volatility = Some v', warning_vol = Some (TargetTooLow (15 / 100) v'),
                       ef = [efficient_risk v']\<rparr>
              \<and> snd (volatility_ladder fallback_frontier (15 / 100))
                  = [efficient_risk (15 / 100), min_volatility, efficient_risk v'])
        \<or> (\<exists>v'. (\<exists>e'. fallback_frontier [] (efficient_risk v') = Inl e')
                \<and> (\<exists>w'. fallback_frontier [efficient_risk v'] max_sharpe = Inr w')
                \<and> ?st = \<lparr>used_volatility = None, warning_vol = Some TargetingFailed,
                         ef = [efficient_risk v', max_sharpe]\<rparr>
                \<and> snd (volatility_ladder fallback_frontier (15 / 100))
                    = [efficient_risk (15 / 100), min_volatility, efficient_risk v', max_sharpe])"
    by blast
  then have three: "\<exists>v'. (\<exists>e'. fallback_frontier [] (efficient_risk v') = Inl e')
           \<and> (\<exists>w'. fallback_frontier [efficient_risk v'] max_sharpe = Inr w')
           \<and> snd (volatility_ladder fallback_frontier (15 / 100))
               = [efficient_risk (15 / 100), min_volatility, efficient_risk v', max_sharpe]"
    by auto
  from outcomes st have n: "\<not> ladder_raises fallback_frontier (15 / 100)"
    by simp
  from outcomes ne c p t n have "\<exists>st'. fst (volatility_ladder fallback_frontier (15 / 100)) = Inr st'
       \<and> fst (portfolio_optimize fallback_pypfopt ''Moderate'' demo_rows demo_frame)
           = Http200 \<lparr>valid_tickers = map ticker (fst (split_valid demo_frame demo_rows)),
                      failed_tickers = snd (split_valid demo_frame demo_rows), ladder = st'\<rparr>"
    by blast
  with st tickers have route: "fst (portfolio_optimize fallback_pypfopt ''Moderate'' demo_rows demo_frame)
       = Http200 \<lparr>valid_tickers = [''AAPL'', ''MSFT''], failed_tickers = [], ladder = ?st\<rparr>"
    by auto
  from a two st three l c p t n route show ?thesis by blast
qed

theorem ladder_can_fail_counterexample:
  "length (fst (split_valid demo_frame demo_rows)) = 2
   \<and> ladder_raises stuck_frontier (15 / 100)
   \<and> portfolio_optimize stuck_pypfopt ''Moderate'' demo_rows demo_frame
        = (Http500 ''Error optimizing portfolio'', [efficient_risk (15 / 100), min_volatility])"
  by (simp add: portfolio_optimize_def split_valid_def has_data_def demo_frame_def demo_rows_def
      stuck_pypfopt_def stuck_frontier_def optimization_logic_def target_volatility_of_def
      volatility_ladder_def price_converts_def ladder_raises_def)


lemma volatility_ladder_calls: "snd (volatility_ladder lib v) \<noteq> []"
  by (simp add: volatility_ladder_def split: sum.splits)

lemma optimization_logic_calls: "snd (optimization_logic lib risk_tolerance) \<noteq> []"
  by (simp add: optimization_logic_def volatility_ladder_calls split: option.splits sum.splits)

text \<open>
  C2, as the code has it: when no holding has a non-empty price history the route answers
  with the error ``No valid tickers found for optimization'' and makes no solver call,
  whatever the library would do; with at least one such holding it does not give that answer,
  and when the rows convert and the library builds an instance, the solver is called.
\<close>

theorem no_valid_tickers_no_optimization:
  "(fst (split_valid data holdings) = [] \<longrightarrow>
      portfolio_optimize pypfopt risk_tolerance holdings data
        = (Http400 ''No valid tickers found for optimization'', []))
   \<and> (fst (split_valid data holdings) \<noteq> [] \<longrightarrow>
        (\<forall>msg. fst (portfolio_optimize pypfopt risk_tolerance holdings data) \<noteq> Http400 msg))
   \<and> (fst (split_valid data holdings) \<noteq> []
        \<and> list_all (\<lambda>h. amount h \<noteq> None \<and> price_converts (price h)) (fst (split_valid data holdings))
        \<and> pypfopt (map ticker (fst (split_valid data holdings))) = Inr lib \<longrightarrow>
        snd (portfolio_optimize pypfopt risk_tolerance holdings data) \<noteq> [])"
proof -
  obtain valid failed where s: "split_valid data holdings = (valid, failed)"
    by (cases "split_valid data holdings")
  have none: "portfolio_optimize pypfopt risk_tolerance holdings data
        = (Http400 ''No valid tickers found for optimization'', [])" if "valid = []"
    using that by (simp add: portfolio_optimize_def s)
  have some: "fst (portfolio_optimize pypfopt risk_tolerance holdings data) \<noteq> Http400 msg"
    if "valid \<noteq> []" for msg
    using that by (simp add: portfolio_optimize_def s Let_def split: prod.splits sum.splits)
  have called: "snd (portfolio_optimize pypfopt risk_tolerance holdings data) \<noteq> []"
    if "valid \<noteq> []" and "list_all (\<lambda>h. amount h \<noteq> None \<and> price_converts (price h)) valid"
      and "pypfopt (map ticker valid) = Inr lib"
  proof -
    from that(2) have "\<not> (\<exists>h \<in> set valid. amount h = None)"
      and "\<not> (\<exists>h \<in> set valid. \<not> price_converts (price h))"
      by (auto simp: list_all_iff)
    with that(1,3) have "snd (portfolio_optimize pypfopt risk_tolerance holdings data)
               = snd (optimization_logic lib risk_tolerance)"
      by (cases "optimization_logic lib risk_tolerance")
         (auto simp: portfolio_optimize_def s Let_def split: sum.splits)
    then show ?thesis by (simp add: optimization_logic_calls)
  qed
  from none some called show ?thesis by (simp add: s)
qed

theorem no_valid_tickers_no_optimization_witness:
  "fst (split_valid [] demo_rows) = []
   \<and> portfolio_optimize feasible_pypfopt ''Moderate'' demo_rows []
        = (Http400 ''No valid tickers found for optimization'', [])"
proof -
  have a: "fst (split_valid [] demo_rows) = []"
    by (simp add: split_valid_def has_data_def)
  with no_valid_tickers_no_optimization [of "[]" demo_rows feasible_pypfopt "''Moderate''"]
  show ?thesis by blast
qed

theorem one_valid_ticker_counterexample:
  "length (fst (split_valid partial_frame demo_rows)) = 1
   \<and> portfolio_optimize feasible_pypfopt ''Moderate'' demo_rows partial_frame
        = (Http200 \<lparr>valid_tickers = [''AAPL''], failed_tickers = [''MSFT''],
                    ladder = \<lparr>used_volatility = Some (15 / 100), warning_vol = None,
                              ef = [efficient_risk (15 / 100)]\<rparr>\<rparr>,
           [efficient_risk (15 / 100)])"
  by (simp add: portfolio_optimize_def split_valid_def has_data_def partial_frame_def demo_rows_def
      feasible_pypfopt_def feasible_frontier_def optimization_logic_def target_volatility_of_def
      volatility_ladder_def price_converts_def)

section \<open>The historical-series aggregator\<close>

lemma set_update_subset: "set (AList.update k v al) \<subseteq> insert (k, v) (set al)"
  by (induction al) auto

lemma parse_series_bars:
  "parse_series bars d = Some s \<Longrightarrow>
   set s \<subseteq> set d \<union> {(day, v). (Some day, Some v) \<in> set bars}"
proof (induction bars d arbitrary: s rule: parse_series.induct)
  case (1 d)
  then show ?case by simp
next
  case (2 day v bars d)
  from 2 have "set s \<subseteq> set (AList.update day v d) \<union> {(day, v). (Some day, Some v) \<in> set bars}"
    by simp
  with set_update_subset [of day v d] show ?case by auto
qed simp_all

lemma alpha_vantage_series_Some:
  assumes "alpha_vantage_series resp from_date to_date = Some s"
  shows "s \<noteq> [] \<and> (\<exists>bars. resp = Response 200 (Json bars)
           \<and> (\<forall>(d, v) \<in> set s. (Some d, Some v) \<in> set bars \<and> from_date \<le> d \<and> d \<le> to_date))"
proof -
  from assms obtain bars series where r: "resp = Response 200 (Json bars)"
    and p: "parse_series bars [] = Some series"
    and s: "s = filter (\<lambda>(d, v). from_date \<le> d \<and> d \<le> to_date) series" and ne: "s \<noteq> []"
    by (auto simp: alpha_vantage_series_def Let_def
        split: http_response.splits body.splits if_splits option.splits)
  from parse_series_bars [OF p] s
  have "\<forall>(d, v) \<in> set s. (Some d, Some v) \<in> set bars \<and> from_date \<le> d \<and> d \<le> to_date"
    by auto
  with r ne show ?thesis by blast
qed

lemma batch_fold_lookup:
  "map_of (fold (\<lambda>t all_data. case alpha_vantage_series (get t) from_date to_date of
                                  None \<Rightarrow> all_data
                                | Some s \<Rightarrow> AList.update t s all_data) tickers d) t =
     (if t \<in> set tickers \<and> alpha_vantage_series (get t) from_date to_date \<noteq> None
      then alpha_vantage_series (get t) from_date to_date else map_of d t)"
  by (induction tickers arbitrary: d) (auto simp: AList.update_conv' split: option.splits)

lemma batch_lookup:
  "map_of (get_alpha_vantage_history_batch get tickers from_date to_date) t =
     (if t \<in> set tickers then alpha_vantage_series (get t) from_date to_date else None)"
  unfolding get_alpha_vantage_history_batch_def batch_fold_lookup by auto

text \<open>
  C5: for every requested ticker, what the aggregated frame holds for it is decided by the
  reply to its own request alone, whatever happens to the other tickers. Either that reply
  yields a series: then the frame holds it, it is not empty, every point of it is a bar of
  the reply within the requested range, and the holding is kept as valid. Or it yields
  none: then the frame has no column for the ticker and the ticker is listed in
  \<open>failed_tickers\<close>.
\<close>

theorem aggregation_isolates_failures:
  "\<forall>h \<in> set holdings.
     (case fetch_and_split get holdings from_date to_date of
        (data, valid, missing) \<Rightarrow>
          map_of data (ticker h) = alpha_vantage_series (get (ticker h)) from_date to_date
          \<and> (case alpha_vantage_series (get (ticker h)) from_date to_date of
               Some s \<Rightarrow>
                 s \<noteq> [] \<and> h \<in> set valid \<and> ticker h \<notin> set missing
                 \<and> (\<exists>bars. get (ticker h) = Response 200 (Json bars)
                      \<and> (\<forall>(d, v) \<in> set s. (Some d, Some v) \<in> set bars
                                              \<and> from_date \<le> d \<and> d \<le> to_date))
             | None \<Rightarrow> ticker h \<in> set missing \<and> h \<notin> set valid))"
proof
  fix h assume h: "h \<in> set holdings"
  let ?data = "get_alpha_vantage_history_batch get (map ticker holdings) from_date to_date"
  let ?r = "alpha_vantage_series (get (ticker h)) from_date to_date"
  have look: "map_of ?data (ticker h) = ?r"
    using h by (simp add: batch_lookup)
  have other: "map_of ?data (ticker h') = alpha_vantage_series (get (ticker h')) from_date to_date"
    if "h' \<in> set holdings" for h'
    using that by (simp add: batch_lookup)
  show "case fetch_and_split get holdings from_date to_date of
        (data, valid, missing) \<Rightarrow>
          map_of data (ticker h) = ?r
          \<and> (case ?r of
               Some s \<Rightarrow>
                 s \<noteq> [] \<and> h \<in> set valid \<and> ticker h \<notin> set missing
                 \<and> (\<exists>bars. get (ticker h) = Response 200 (Json bars)
                      \<and> (\<forall>(d, v) \<in> set s. (Some d, Some v) \<in> set bars
                                              \<and> from_date \<le> d \<and> d \<le> to_date))
             | None \<Rightarrow> ticker h \<in> set missing \<and> h \<notin> set valid)"
  proof (cases ?r)
    case None
    with look h show ?thesis
      by (auto simp: fetch_and_split_def split_valid_def has_data_def Let_def)
  next
    case (Some s)
    from alpha_vantage_series_Some [OF Some] have ne: "s \<noteq> []"
      and bars: "\<exists>bars. get (ticker h) = Response 200 (Json bars)
           \<and> (\<forall>(d, v) \<in> set s. (Some d, Some v) \<in> set bars \<and> from_date \<le> d \<and> d \<le> to_date)"
      by blast+
    have valid: "has_data ?data (ticker h)"
      using look Some ne by (simp add: has_data_def)
    have "ticker h \<notin> ticker ` {h' \<in> set holdings. \<not> has_data ?data (ticker h')}"
      using valid by auto
    with look Some ne bars valid h show ?thesis
      by (simp add: fetch_and_split_def split_valid_def Let_def)
  qed
qed

lemma demo_fetch:
  "fetch_and_split demo_get zz_rows 0 10
     = ([(''AAPL'', [(1, 150), (2, 152)])],
        [\<lparr>ticker = ''AAPL'', amount = Some 10, price = Num 150, sector = None\<rparr>],
        [''ZZZZ''])"
  by (simp add: fetch_and_split_def get_alpha_vantage_history_batch_def alpha_vantage_series_def
      demo_get_def zz_rows_def split_valid_def has_data_def Let_def)

theorem aggregation_isolates_failures_witness:
  "fetch_and_split demo_get zz_rows 0 10
     = ([(''AAPL'', [(1, 150), (2, 152)])],
        [\<lparr>ticker = ''AAPL'', amount = Some 10, price = Num 150, sector = None\<rparr>],
        [''ZZZZ''])
   \<and> alpha_vantage_series (demo_get ''ZZZZ'') 0 10 = None
   \<and> map_of (fst (fetch_and_split demo_get zz_rows 0 10)) ''ZZZZ'' = None
   \<and> ''ZZZZ'' \<in> set (snd (snd (fetch_and_split demo_get zz_rows 0 10)))"
proof -
  let ?z = "\<lparr>ticker = ''ZZZZ'', amount = Some 5, price = Num 300, sector = None\<rparr>"
  have z: "?z \<in> set zz_rows" by (simp add: zz_rows_def)
  have n: "alpha_vantage_series (demo_get ''ZZZZ'') 0 10 = None"
    by (simp add: alpha_vantage_series_def demo_get_def)
  note bspec [OF aggregation_isolates_failures [of zz_rows demo_get 0 10] z]
  with n have "map_of (fst (fetch_and_split demo_get zz_rows 0 10)) ''ZZZZ'' = None
     \<and> ''ZZZZ'' \<in> set (snd (snd (fetch_and_split demo_get zz_rows 0 10)))"
    by (simp add: case_prod_beta)
  with demo_fetch n show ?thesis by blast
qed

section \<open>Retries: groq_generate_content and the reduced-range loop\<close>











section \<open>Merging the suggested tickers\<close>

lemma round2_error: "\<bar>round2 x - x\<bar> \<le> 1 / 200"
proof -
  define y where "y = x * 100"
  define f where "f = \<lfloor>y\<rfloor>"
  define d where "d = y - of_int f"
  define k where "k = (if d < 1 / 2 then f else if 1 / 2 < d then f + 1
                 else if even f then f else f + 1)"
  have d0: "0 \<le> d" and d1: "d < 1"
    unfolding d_def f_def by linarith+
  have r: "round2 x = of_int k / 100"
    unfolding round2_def Let_def k_def d_def f_def y_def by simp
  have "round2 x - x = (of_int k - y) / 100"
    unfolding r y_def by (simp add: diff_divide_distrib)
  also have "of_int k - y = of_int (k - f) - d"
    unfolding d_def by simp
  finally have e: "round2 x - x = (of_int (k - f) - d) / 100" .
  consider "d < 1 / 2" | "1 / 2 < d" | "d = 1 / 2" by linarith
  then show ?thesis
  proof cases
    case 1
    then have "k - f = 0" by (simp add: k_def)
    with e 1 d0 show ?thesis by simp
  next
    case 2
    then have "k - f = 1" by (simp add: k_def)
    with e 2 d1 show ?thesis by simp
  next
    case 3
    then have "k - f = 0 \<or> k - f = 1" by (simp add: k_def)
    with e 3 show ?thesis by auto
  qed
qed

lemma per_ticker_pct_small: "0 < n \<Longrightarrow> n \<le> 3 \<Longrightarrow> per_ticker_pct_of n = 5"
proof -
  assume n: "0 < n" "n \<le> 3"
  then have "real n * 5 \<le> 15" by simp
  then have "min 15 (real n * 5) / real n = 5" using n by (simp add: min_def)
  then have "per_ticker_pct_of n = round2 5" using n by (simp add: per_ticker_pct_of_def)
  also have "round2 5 = 5" by (simp add: round2_def)
  finally show ?thesis .
qed

lemma per_ticker_pct_total:
  "\<bar>real n * per_ticker_pct_of n - min 15 (real n * 5)\<bar> \<le> real n / 200"
proof (cases "n = 0")
  case True
  then show ?thesis by (simp add: per_ticker_pct_of_def)
next
  case False
  define q where "q = min 15 (real n * 5) / real n"
  have nq: "real n * q = min 15 (real n * 5)" using False by (simp add: q_def)
  have p: "per_ticker_pct_of n = round2 q" using False by (simp add: per_ticker_pct_of_def q_def)
  have "\<bar>real n * round2 q - real n * q\<bar> = real n * \<bar>round2 q - q\<bar>"
    by (simp add: abs_mult right_diff_distrib [symmetric])
  also have "\<dots> \<le> real n * (1 / 200)"
    by (rule mult_left_mono [OF round2_error]) simp
  finally show ?thesis using nq p by simp
qed

lemma nine_suggested:
  "ai_suggested_of [] nine_symbols
     = [''AA'', ''BB'', ''CC'', ''DD'', ''EE'', ''FF'', ''GG'', ''HH'', ''II'']"
  by (simp add: ai_suggested_of_def ticker_matches_def nine_symbols_def is_word_char_def
      is_upper_def)

lemma nine_pct: "per_ticker_pct_of 9 = 167 / 100"
  by (simp add: per_ticker_pct_of_def round2_def Let_def)

lemma added_percentages:
  "sum_list (map optimal_percentage (map (suggested_entry env portfolio_value p) ts))
     = real (length ts) * p"
proof -
  have o: "optimal_percentage (suggested_entry env portfolio_value p t) = p" for t
    by (simp add: suggested_entry_def split: option.splits)
  show ?thesis by (induction ts) (simp_all add: o algebra_simps)
qed

lemma word_runs_sound:
  "list_all is_word_char cur \<Longrightarrow> w \<in> set (word_runs cur str) \<Longrightarrow>
   w \<noteq> [] \<and> list_all is_word_char w
   \<and> (\<exists>p post. cur @ str = p @ w @ post
         \<and> (p = [] \<or> \<not> is_word_char (last p))
         \<and> (post = [] \<or> \<not> is_word_char (hd post)))"
proof (induction str arbitrary: cur)
  case Nil
  then have "w = cur" and "cur \<noteq> []" by (auto split: if_splits)
  with Nil.prems(1) show ?case by (intro conjI exI [of _ "[]"]) auto
next
  case (Cons c cs)
  show ?case
  proof (cases "is_word_char c")
    case True
    with Cons.prems have "list_all is_word_char (cur @ [c])" and "w \<in> set (word_runs (cur @ [c]) cs)"
      by simp_all
    from Cons.IH [OF this] show ?thesis by simp
  next
    case False
    have rest: ?thesis if "w \<in> set (word_runs [] cs)"
    proof -
      from Cons.IH [of "[]" , OF _ that]
      obtain p post where w: "w \<noteq> []" "list_all is_word_char w" and e: "cs = p @ w @ post"
        and b: "p = [] \<or> \<not> is_word_char (last p)" "post = [] \<or> \<not> is_word_char (hd post)"
        by auto
      have "cur @ c # cs = (cur @ c # p) @ w @ post" using e by simp
      moreover have "\<not> is_word_char (last (cur @ c # p))" using b(1) False by auto
      ultimately show ?thesis using w b(2) by blast
    qed
    show ?thesis
    proof (cases "cur = []")
      case True
      with False Cons.prems have "w \<in> set (word_runs [] cs)" by simp
      then show ?thesis by (rule rest)
    next
      case nonempty: False
      with False Cons.prems have "w = cur \<or> w \<in> set (word_runs [] cs)" by simp
      then show ?thesis
      proof
        assume "w = cur"
        with nonempty Cons.prems(1) False show ?thesis
          by (intro conjI exI [of _ "[]"] exI [of _ "c # cs"]) auto
      qed (rule rest)
    qed
  qed
qed

lemma word_runs_complete:
  "list_all is_word_char cur \<Longrightarrow> w \<noteq> [] \<Longrightarrow> list_all is_word_char w \<Longrightarrow>
   cur @ str = p @ w @ post \<Longrightarrow> p = [] \<or> \<not> is_word_char (last p) \<Longrightarrow>
   post = [] \<or> \<not> is_word_char (hd post) \<Longrightarrow> w \<in> set (word_runs cur str)"
proof (induction str arbitrary: cur p)
  case Nil
  from Nil.prems(4) have c: "cur = p @ w @ post" by simp
  have "p = []"
  proof (rule ccontr)
    assume "p \<noteq> []"
    then have "last p \<in> set cur" unfolding c by simp
    with Nil.prems(1,5) \<open>p \<noteq> []\<close> show False by (auto simp: list_all_iff)
  qed
  moreover have "post = []"
  proof (rule ccontr)
    assume "post \<noteq> []"
    then have "hd post \<in> set cur" unfolding c by simp
    with Nil.prems(1,6) \<open>post \<noteq> []\<close> show False by (auto simp: list_all_iff)
  qed
  ultimately have "cur = w" using c by simp
  with Nil.prems(2) show ?case by simp
next
  case (Cons c cs)
  show ?case
  proof (cases "is_word_char c")
    case True
    have "w \<in> set (word_runs (cur @ [c]) cs)"
      using Cons.prems True by (intro Cons.IH [of "cur @ [c]" p]) simp_all
    with True show ?thesis by simp
  next
    case False
    show ?thesis
    proof (cases "length p \<le> length cur")
      case short: True
      define us where "us = drop (length p) cur"
      from Cons.prems(4) have "take (length p) (cur @ c # cs) = take (length p) (p @ w @ post)"
        by simp
      with short have "take (length p) cur = p" by simp
      then have "cur = p @ us" unfolding us_def by (metis append_take_drop_id)
      moreover from this Cons.prems(4) have "us @ c # cs = w @ post" by simp
      ultimately have us: "cur = p @ us" "us @ c # cs = w @ post" by simp_all
      have p: "p = []"
      proof (rule ccontr)
        assume "p \<noteq> []"
        then have "last p \<in> set cur" unfolding us(1) by simp
        with Cons.prems(1,5) \<open>p \<noteq> []\<close> show False by (auto simp: list_all_iff)
      qed
      with us have e: "cur @ c # cs = w @ post" by simp
      have "w = cur"
      proof -
        from e consider vs where "cur = w @ vs" "vs @ c # cs = post"
          | vs where "cur @ vs = w" "c # cs = vs @ post"
          by (auto simp: append_eq_append_conv2)
        then show ?thesis
        proof cases
          case 1
          show ?thesis
          proof (cases vs)
            case Nil
            with 1 show ?thesis by simp
          next
            case (Cons v vs')
            with 1 have "post \<noteq> []" and "hd post = v" and "v \<in> set cur" by auto
            with Cons.prems(1) \<open>post = [] \<or> \<not> is_word_char (hd post)\<close> show ?thesis
              by (auto simp: list_all_iff)
          qed
        next
          case 2
          show ?thesis
          proof (cases vs)
            case Nil
            with 2 show ?thesis by simp
          next
            case (Cons v vs')
            with 2 have "v = c" and "v \<in> set w" by auto
            with \<open>list_all is_word_char w\<close> False show ?thesis by (auto simp: list_all_iff)
          qed
        qed
      qed
      moreover have "cur \<noteq> []" using \<open>w = cur\<close> Cons.prems(2) by simp
      ultimately show ?thesis using False by simp
    next
      case long: False
      from Cons.prems(4) long obtain us where us: "cur @ us = p" "c # cs = us @ w @ post"
        by (auto simp: append_eq_append_conv2)
      from long us(1) have "us \<noteq> []" by auto
      with us(2) obtain p' where p': "us = c # p'" "cs = p' @ w @ post"
        by (cases us) auto
      have b: "p' = [] \<or> \<not> is_word_char (last p')"
        using Cons.prems(5) us(1) p'(1) by auto
      have "w \<in> set (word_runs [] cs)"
        using Cons.prems(2,3,6) p'(2) b by (intro Cons.IH [of "[]" p']) simp_all
      with False show ?thesis by (cases "cur = []") simp_all
    qed
  qed
qed

lemma word_runs_maximal: "w \<in> set (word_runs [] str) \<longleftrightarrow> maximal_run str w"
proof
  assume "w \<in> set (word_runs [] str)"
  with word_runs_sound [of "[]" w str] show "maximal_run str w"
    by (simp add: maximal_run_def)
next
  assume "maximal_run str w"
  then obtain pre post where "w \<noteq> []" "list_all is_word_char w" "str = pre @ w @ post"
    "pre = [] \<or> \<not> is_word_char (last pre)" "post = [] \<or> \<not> is_word_char (hd post)"
    by (auto simp: maximal_run_def)
  then show "w \<in> set (word_runs [] str)"
    by (intro word_runs_complete [of "[]" w str pre post]) simp_all
qed

lemma fill_unresolved:
  "yf_info env t = None \<or> (\<exists>i. yf_info env t = Some i \<and> regularMarketPrice i = None) \<Longrightarrow>
   fill_price_shares env portfolio_value (suggested_entry env portfolio_value p t)
     = suggested_entry env portfolio_value p t"
  by (auto simp: fill_price_shares_def suggested_entry_def Let_def)

lemma fill_suggested:
  "fill_price_shares env portfolio_value (suggested_entry env portfolio_value p t)
     = suggested_entry env portfolio_value p t"
  by (auto simp: fill_price_shares_def suggested_entry_def Let_def split: option.splits)

lemma fill_keeps:
  "o_ticker (fill_price_shares env portfolio_value entry) = o_ticker entry"
  "optimal_percentage (fill_price_shares env portfolio_value entry) = optimal_percentage entry"
  by (simp_all add: fill_price_shares_def Let_def)

lemma merge_split:
  "merge_ai_suggestions env portfolio_value optimized ai_analysis
     = map (fill_price_shares env portfolio_value) optimized
       @ map (suggested_entry env portfolio_value
                (per_ticker_pct_of (length (ai_suggested_of optimized ai_analysis))))
             (ai_suggested_of optimized ai_analysis)"
  by (simp add: merge_ai_suggestions_def add_ai_suggested_def Let_def fill_suggested)

lemma filter_single: "distinct xs \<Longrightarrow> t \<in> set xs \<Longrightarrow> filter (\<lambda>x. x = t) xs = [t]"
  by (induction xs) (auto simp: filter_empty_conv)

lemma suggested_unresolved:
  "price_unresolved env t \<Longrightarrow>
   suggested_entry env portfolio_value p t
     = \<lparr>o_ticker = t, o_company_name = company_name_of env t, optimal_percentage = p,
        o_price = Some None, shares = Some 0\<rparr>"
  by (auto simp: price_unresolved_def suggested_entry_def company_name_of_def split: option.splits)

text \<open>
  C7, as the code has it. The tickers added are the matches of the pattern in the analysis
  text (maximal runs of word characters that consist of 2 to 5 capital letters) that are not
  tickers of the optimized allocation and are neither ETF nor AI, each once. In the merged
  allocation the optimized entries come first, with their tickers and percentages, and the
  new entries follow, one per suggestion, each with the percentage
  \<open>round(min(15, 5 n) / n, 2)\<close> for \<open>n\<close> suggestions. That is 5 each for up to three
  suggestions; in general the total added differs from \<open>min(15, 5 n)\<close> by at most 0.005 per
  suggestion. A suggestion whose price cannot be resolved has exactly one entry in the merged
  allocation, with a null price and no shares.
\<close>

theorem ai_suggestions_merged:
  "set (ai_suggested_of optimized ai_analysis)
     = {t \<in> set (ticker_matches ai_analysis).
          t \<notin> o_ticker ` set optimized \<and> t \<noteq> ''ETF'' \<and> t \<noteq> ''AI''}
   \<and> distinct (ai_suggested_of optimized ai_analysis)
   \<and> (w \<in> set (ticker_matches ai_analysis) \<longleftrightarrow>
        maximal_run ai_analysis w \<and> 2 \<le> length w \<and> length w \<le> 5 \<and> list_all is_upper w)
   \<and> map o_ticker (take (length optimized)
         (merge_ai_suggestions env portfolio_value optimized ai_analysis)) = map o_ticker optimized
   \<and> map optimal_percentage (take (length optimized)
         (merge_ai_suggestions env portfolio_value optimized ai_analysis))
       = map optimal_percentage optimized
   \<and> drop (length optimized) (merge_ai_suggestions env portfolio_value optimized ai_analysis)
       = map (suggested_entry env portfolio_value
                (per_ticker_pct_of (length (ai_suggested_of optimized ai_analysis))))
             (ai_suggested_of optimized ai_analysis)
   \<and> map o_ticker (drop (length optimized)
         (merge_ai_suggestions env portfolio_value optimized ai_analysis))
       = ai_suggested_of optimized ai_analysis
   \<and> list_all (\<lambda>e. optimal_percentage e = per_ticker_pct_of (length (ai_suggested_of optimized ai_analysis)))
        (drop (length optimized) (merge_ai_suggestions env portfolio_value optimized ai_analysis))
   \<and> (0 < n \<and> n \<le> 3 \<longrightarrow> per_ticker_pct_of n = 5)
   \<and> \<bar>sum_list (map optimal_percentage
          (drop (length optimized) (merge_ai_suggestions env portfolio_value optimized ai_analysis)))
        - min 15 (real (length (ai_suggested_of optimized ai_analysis)) * 5)\<bar>
        \<le> real (length (ai_suggested_of optimized ai_analysis)) / 200
   \<and> (\<forall>t \<in> set (ai_suggested_of optimized ai_analysis).
        price_unresolved env t \<longrightarrow>
        filter (\<lambda>e. o_ticker e = t)
          (drop (length optimized) (merge_ai_suggestions env portfolio_value optimized ai_analysis))
        = [\<lparr>o_ticker = t, o_company_name = company_name_of env t,
            optimal_percentage = per_ticker_pct_of (length (ai_suggested_of optimized ai_analysis)),
            o_price = Some None, shares = Some 0\<rparr>])"
proof -
  let ?sug = "ai_suggested_of optimized ai_analysis"
  let ?p = "per_ticker_pct_of (length ?sug)"
  let ?m = "merge_ai_suggestions env portfolio_value optimized ai_analysis"
  have tk: "take (length optimized) ?m = map (fill_price_shares env portfolio_value) optimized"
    unfolding merge_split by simp
  have dr: "drop (length optimized) ?m = map (suggested_entry env portfolio_value ?p) ?sug"
    unfolding merge_split by simp
  have tickers: "o_ticker (suggested_entry env portfolio_value q t') = t'" for q t'
    by (simp add: suggested_entry_def split: option.splits)
  have pct: "optimal_percentage (suggested_entry env portfolio_value q t') = q" for q t'
    by (simp add: suggested_entry_def split: option.splits)
  have 1: "set ?sug = {t \<in> set (ticker_matches ai_analysis).
          t \<notin> o_ticker ` set optimized \<and> t \<noteq> ''ETF'' \<and> t \<noteq> ''AI''}"
    by (auto simp: ai_suggested_of_def)
  have 2: "distinct ?sug" by (simp add: ai_suggested_of_def)
  have 3: "w \<in> set (ticker_matches ai_analysis) \<longleftrightarrow>
        maximal_run ai_analysis w \<and> 2 \<le> length w \<and> length w \<le> 5 \<and> list_all is_upper w"
    by (auto simp: ticker_matches_def word_runs_maximal)
  have 4: "map o_ticker (take (length optimized) ?m) = map o_ticker optimized"
    unfolding tk by (simp add: fill_keeps comp_def)
  have 5: "map optimal_percentage (take (length optimized) ?m) = map optimal_percentage optimized"
    unfolding tk by (simp add: fill_keeps comp_def)
  have 6: "map o_ticker (drop (length optimized) ?m) = ?sug"
    unfolding dr by (simp add: tickers comp_def)
  have 7: "list_all (\<lambda>e. optimal_percentage e = ?p) (drop (length optimized) ?m)"
    unfolding dr by (simp add: list_all_iff pct)
  have 8: "0 < n \<and> n \<le> 3 \<longrightarrow> per_ticker_pct_of n = 5"
    by (simp add: per_ticker_pct_small)
  have 9: "\<bar>sum_list (map optimal_percentage (drop (length optimized) ?m))
        - min 15 (real (length ?sug) * 5)\<bar> \<le> real (length ?sug) / 200"
    unfolding dr added_percentages by (rule per_ticker_pct_total)
  have 10: "\<forall>t \<in> set ?sug. price_unresolved env t \<longrightarrow>
        filter (\<lambda>e. o_ticker e = t) (drop (length optimized) ?m)
        = [\<lparr>o_ticker = t, o_company_name = company_name_of env t, optimal_percentage = ?p,
            o_price = Some None, shares = Some 0\<rparr>]"
  proof (intro ballI impI)
    fix t assume t: "t \<in> set ?sug" and u: "price_unresolved env t"
    have "filter (\<lambda>e. o_ticker e = t) (map (suggested_entry env portfolio_value ?p) ?sug)
            = map (suggested_entry env portfolio_value ?p) (filter (\<lambda>x. x = t) ?sug)"
      by (simp add: filter_map comp_def tickers)
    also have "\<dots> = [suggested_entry env portfolio_value ?p t]"
      using filter_single [OF 2 t] by simp
    finally show "filter (\<lambda>e. o_ticker e = t) (drop (length optimized) ?m)
        = [\<lparr>o_ticker = t, o_company_name = company_name_of env t, optimal_percentage = ?p,
            o_price = Some None, shares = Some 0\<rparr>]"
      unfolding dr using suggested_unresolved [OF u] by simp
  qed
  from 1 2 3 4 5 dr 6 7 8 9 10 show ?thesis by blast
qed

lemma advice_suggested: "ai_suggested_of held_optimal advice = [''AA'', ''BB'']"
  by (simp add: ai_suggested_of_def ticker_matches_def advice_def held_optimal_def
      is_word_char_def is_upper_def)

lemma advice_merged:
  "merge_ai_suggestions demo_market 3000 held_optimal advice
     = [\<lparr>o_ticker = ''AAPL'', o_company_name = ''AAPL'', optimal_percentage = 60,
         o_price = Some None, shares = Some 0\<rparr>,
        \<lparr>o_ticker = ''MSFT'', o_company_name = ''MSFT'', optimal_percentage = 40,
         o_price = Some None, shares = Some 0\<rparr>,
        \<lparr>o_ticker = ''AA'', o_company_name = ''Alpha'', optimal_percentage = 5,
         o_price = Some (Some 10), shares = Some 15\<rparr>,
        \<lparr>o_ticker = ''BB'', o_company_name = ''BB'', optimal_percentage = 5,
         o_price = Some None, shares = Some 0\<rparr>]"
proof -
  have p: "per_ticker_pct_of (Suc (Suc 0)) = 5"
    by (simp add: per_ticker_pct_of_def round2_def)
  show ?thesis
    unfolding merge_split advice_suggested
    by (simp add: p held_optimal_def fill_price_shares_def suggested_entry_def demo_market_def)
qed

theorem ai_suggestions_merged_witness:
  "ai_suggested_of held_optimal advice = [''AA'', ''BB'']
   \<and> price_unresolved demo_market ''BB''
   \<and> filter (\<lambda>e. o_ticker e = ''BB'')
        (drop (length held_optimal) (merge_ai_suggestions demo_market 3000 held_optimal advice))
       = [\<lparr>o_ticker = ''BB'', o_company_name = ''BB'', optimal_percentage = 5,
           o_price = Some None, shares = Some 0\<rparr>]
   \<and> merge_ai_suggestions demo_market 3000 held_optimal advice
       = [\<lparr>o_ticker = ''AAPL'', o_company_name = ''AAPL'', optimal_percentage = 60,
           o_price = Some None, shares = Some 0\<rparr>,
          \<lparr>o_ticker = ''MSFT'', o_company_name = ''MSFT'', optimal_percentage = 40,
           o_price = Some None, shares = Some 0\<rparr>,
          \<lparr>o_ticker = ''AA'', o_company_name = ''Alpha'', optimal_percentage = 5,
           o_price = Some (Some 10), shares = Some 15\<rparr>,
          \<lparr>o_ticker = ''BB'', o_company_name = ''BB'', optimal_percentage = 5,
           o_price = Some None, shares = Some 0\<rparr>]"
proof -
  have u: "price_unresolved demo_market ''BB''"
    by (simp add: price_unresolved_def demo_market_def)
  have b: "''BB'' \<in> set (ai_suggested_of held_optimal advice)"
    by (simp add: advice_suggested)
  have p: "per_ticker_pct_of (length (ai_suggested_of held_optimal advice)) = 5"
    by (simp add: advice_suggested per_ticker_pct_of_def round2_def)
  have c: "company_name_of demo_market ''BB'' = ''BB''"
    by (simp add: company_name_of_def demo_market_def)
  from ai_suggestions_merged [of held_optimal advice _ demo_market 3000]
  have "\<forall>t \<in> set (ai_suggested_of held_optimal advice).
        price_unresolved demo_market t \<longrightarrow>
        filter (\<lambda>e. o_ticker e = t)
          (drop (length held_optimal) (merge_ai_suggestions demo_market 3000 held_optimal advice))
        = [\<lparr>o_ticker = t, o_company_name = company_name_of demo_market t,
            optimal_percentage = per_ticker_pct_of (length (ai_suggested_of held_optimal advice)),
            o_price = Some None, shares = Some 0\<rparr>]"
    by blast
  from bspec [OF this b] u p c
  have "filter (\<lambda>e. o_ticker e = ''BB'')
        (drop (length held_optimal) (merge_ai_suggestions demo_market 3000 held_optimal advice))
       = [\<lparr>o_ticker = ''BB'', o_company_name = ''BB'', optimal_percentage = 5,
           o_price = Some None, shares = Some 0\<rparr>]"
    by simp
  with advice_suggested u advice_merged show ?thesis by blast
qed

theorem added_total_exceeds_cap_counterexample:
  "ai_suggested_of [] nine_symbols
     = [''AA'', ''BB'', ''CC'', ''DD'', ''EE'', ''FF'', ''GG'', ''HH'', ''II'']
   \<and> per_ticker_pct_of 9 = 167 / 100
   \<and> sum_list (map optimal_percentage (add_ai_suggested demo_market 3000 [] nine_symbols))
        = 1503 / 100
   \<and> 15 < sum_list (map optimal_percentage (add_ai_suggested demo_market 3000 [] nine_symbols))
   \<and> sum_list (map optimal_percentage (merge_ai_suggestions demo_market 3000 [] nine_symbols))
        = 1503 / 100"
proof -
  have m: "map optimal_percentage (merge_ai_suggestions demo_market 3000 [] nine_symbols)
             = map optimal_percentage (add_ai_suggested demo_market 3000 [] nine_symbols)"
    by (simp add: merge_ai_suggestions_def fill_keeps comp_def)
  have s: "ai_suggested_of [] nine_symbols
     = [''AA'', ''BB'', ''CC'', ''DD'', ''EE'', ''FF'', ''GG'', ''HH'', ''II'']"
    by (rule nine_suggested)
  have l: "length (ai_suggested_of [] nine_symbols) = 9"
    unfolding s by simp
  have "add_ai_suggested demo_market 3000 [] nine_symbols
          = map (suggested_entry demo_market 3000 (per_ticker_pct_of 9))
                (ai_suggested_of [] nine_symbols)"
    unfolding add_ai_suggested_def Let_def l by simp
  then have "sum_list (map optimal_percentage (add_ai_suggested demo_market 3000 [] nine_symbols))
        = real (length (ai_suggested_of [] nine_symbols)) * per_ticker_pct_of 9"
    by (simp only: added_percentages)
  then have t: "sum_list (map optimal_percentage (add_ai_suggested demo_market 3000 [] nine_symbols))
        = 9 * per_ticker_pct_of 9"
    unfolding l by simp
  from s t nine_pct show ?thesis unfolding m by simp
qed

section \<open>calculate_portfolio_metrics: the dictionaries and the divisor\<close>

lemma traverse_Inr:
  "(\<And>x. x \<in> set xs \<Longrightarrow> f x = Inr (g x)) \<Longrightarrow> traverse f xs = Inr (map g xs)"
  by (induction xs) simp_all

lemma last_row_Some: "last_row hs t = Some h \<Longrightarrow> h \<in> set hs \<and> ticker h = t"
  unfolding last_row_def by (auto dest: find_SomeD)

lemma last_row_ticker: "h \<in> set hs \<Longrightarrow> \<exists>h'. last_row hs (ticker h) = Some h'"
  unfolding last_row_def by (cases "find (\<lambda>h'. ticker h' = ticker h) (rev hs)") (auto simp: find_None_iff)

lemma last_row_distinct:
  "distinct (map ticker hs) \<Longrightarrow> h \<in> set hs \<Longrightarrow> last_row hs (ticker h) = Some h"
proof -
  assume d: "distinct (map ticker hs)" and h: "h \<in> set hs"
  then obtain h' where l: "last_row hs (ticker h) = Some h'" using last_row_ticker by blast
  then have "h' \<in> set hs" and "ticker h' = ticker h" using last_row_Some by blast+
  with d h have "h' = h" by (meson distinct_map inj_onD)
  with l show ?thesis by simp
qed

lemma prices_lookup:
  "map_of (prices_of env hs) t = map_option (resolve_price env) (last_row hs t)"
  by (simp add: prices_of_def last_row_def map_of_fold_update split: option.splits)

lemma sectors_lookup:
  "map_of (sectors_of env hs) t = map_option (resolve_sector env) (last_row hs t)"
  by (simp add: sectors_of_def last_row_def map_of_fold_update split: option.splits)

lemma amounts_of_Inr:
  "list_all (\<lambda>h. amount h \<noteq> None) hs \<Longrightarrow>
   amounts_of hs d = Inr (fold (\<lambda>h d. AList.update (ticker h) (amount_of h) d) hs d)"
  by (induction hs arbitrary: d) (auto simp: amount_of_def)

lemma amounts_of_Inl:
  "\<not> list_all (\<lambda>h. amount h \<noteq> None) hs \<Longrightarrow> amounts_of hs d = Inl ValueError"
  by (induction hs arbitrary: d) (auto split: option.splits)

lemma amounts_lookup:
  "map_of (fold (\<lambda>h d. AList.update (ticker h) (amount_of h) d) hs []) t
     = map_option amount_of (last_row hs t)"
  by (simp add: last_row_def map_of_fold_update split: option.splits)


lemma position_value_held:
  assumes "list_all (\<lambda>h. amount h \<noteq> None) hs" and "t \<in> ticker ` set hs"
  shows "position_value (prices_of env hs)
           (fold (\<lambda>h d. AList.update (ticker h) (amount_of h) d) hs []) t
         = Inr (held_value env hs t)"
proof -
  from assms(2) obtain h where "last_row hs t = Some h" using last_row_ticker by blast
  then show ?thesis
    by (simp add: position_value_def getitem_def prices_lookup amounts_lookup held_value_def)
qed

lemma getitem_sector:
  assumes "t \<in> ticker ` set hs"
  shows "getitem (sectors_of env hs) t = Inr (held_sector env hs t)"
proof -
  from assms obtain h where "last_row hs t = Some h" using last_row_ticker by blast
  then show ?thesis by (simp add: getitem_def sectors_lookup held_sector_def)
qed

lemma sector_totals_of_Inr:
  assumes "\<And>t. t \<in> set ts \<Longrightarrow> getitem S t = Inr (sec t)"
    and "\<And>t. t \<in> set ts \<Longrightarrow> position_value P A t = Inr (val t)"
  shows "sector_totals_of S P A ts acc
           = Inr (fold (\<lambda>t acc. AList.update (sec t) (dict_get acc (sec t) 0 + val t) acc) ts acc)"
  using assms by (induction ts arbitrary: acc) simp_all

lemma filter_absent: "s \<notin> f ` set ts \<Longrightarrow> filter (\<lambda>t. f t = s) ts = []"
  by (induction ts) auto

lemma sector_fold_lookup:
  fixes val :: "'a \<Rightarrow> real"
  shows "map_of (fold (\<lambda>t acc. AList.update (sec t) (dict_get acc (sec t) 0 + val t) acc) ts acc) s
     = (if s \<in> sec ` set ts
        then Some (dict_get acc s 0 + (\<Sum>t \<leftarrow> filter (\<lambda>t. sec t = s) ts. val t))
        else map_of acc s)"
proof (induction ts arbitrary: acc)
  case Nil
  show ?case by simp
next
  case (Cons t ts)
  let ?acc = "AList.update (sec t) (dict_get acc (sec t) 0 + val t) acc"
  have dg: "dict_get ?acc s 0 = (if s = sec t then dict_get acc s 0 + val t else dict_get acc s 0)"
    by (simp add: dict_get_def AList.update_conv')
  have mo: "map_of ?acc s = (if s = sec t then Some (dict_get acc s 0 + val t) else map_of acc s)"
    by (simp add: AList.update_conv')
  have "map_of (fold (\<lambda>t acc. AList.update (sec t) (dict_get acc (sec t) 0 + val t) acc) (t # ts) acc) s
          = (if s \<in> sec ` set ts
             then Some (dict_get ?acc s 0 + (\<Sum>t \<leftarrow> filter (\<lambda>t. sec t = s) ts. val t))
             else map_of ?acc s)"
    using Cons.IH [of ?acc] by simp
  also have "\<dots> = (if s \<in> sec ` set (t # ts)
        then Some (dict_get acc s 0 + (\<Sum>t \<leftarrow> filter (\<lambda>t. sec t = s) (t # ts). val t))
        else map_of acc s)"
    unfolding dg mo by (auto simp: filter_absent)
  finally show ?case .
qed

lemma sector_exposure_of_Inr:
  "tv \<noteq> 0 \<Longrightarrow>
   sector_exposure_of st tv = Inr (map (\<lambda>(k, v). (k, round2 (100 * v / tv))) st)"
  unfolding sector_exposure_of_def
  by (rule traverse_Inr) (auto simp: py_div_def)

lemma weights_of_Inr:
  assumes "tv \<noteq> 0" and "\<And>t. t \<in> set ts \<Longrightarrow> position_value P A t = Inr (val t)"
  shows "weights_of P A tv ts = Inr (map (\<lambda>t. val t / tv) ts)"
  unfolding weights_of_def
  by (rule traverse_Inr) (simp add: assms py_div_def)

lemma guard_zero_nonzero: "guard_zero x \<noteq> 0"
  by (simp add: guard_zero_def)

lemma divisor_nonzero: "divisor env hs w \<noteq> 0"
  by (simp add: divisor_def guard_zero_nonzero)

section \<open>calculate_portfolio_metrics: the result\<close>

text \<open>The result of the function on a non-empty list whose amounts convert.\<close>

lemma metrics_result:
  assumes ne: "hs \<noteq> []" and am: "list_all (\<lambda>h. amount h \<noteq> None) hs"
  shows "calculate_portfolio_metrics env hs w =
     (let tickers = map ticker hs;
          T = divisor env hs w;
          exposure = map (\<lambda>(k, v). (k, round2 (100 * v / T)))
                       (fold (\<lambda>t acc. AList.update (held_sector env hs t)
                                 (dict_get acc (held_sector env hs t) 0 + held_value env hs t) acc)
                             tickers []);
          score = diversification_of (sectors_of env hs) tickers;
          weights = map (\<lambda>t. held_value env hs t / T) tickers
      in if history_columns env tickers = [] then
           Inr \<lparr>total_value = round2 T, expected_return = 0, risk_level = ''N/A'',
                sector_exposure = exposure, diversification_score = score, volatility = 0\<rparr>
         else if \<exists>t \<in> set tickers. t \<notin> set (history_columns env tickers) then Inl KeyError
         else Inr \<lparr>total_value = round2 T,
                   expected_return = round2 (port_return_of env tickers weights),
                   risk_level = risk_level_of (port_volatility_of env tickers weights),
                   sector_exposure = exposure, diversification_score = score,
                   volatility = round2 (port_volatility_of env tickers weights)\<rparr>)"
proof -
  let ?A = "fold (\<lambda>h d. AList.update (ticker h) (amount_of h) d) hs []"
  let ?P = "prices_of env hs"
  let ?ts = "map ticker hs"
  have a: "amounts_of hs [] = Inr ?A" using am by (rule amounts_of_Inr)
  have pv: "position_value ?P ?A t = Inr (held_value env hs t)" if "t \<in> set ?ts" for t
    using am that by (intro position_value_held) simp_all
  have gs: "getitem (sectors_of env hs) t = Inr (held_sector env hs t)" if "t \<in> set ?ts" for t
    using that by (intro getitem_sector) simp
  have vals: "traverse (position_value ?P ?A) ?ts = Inr (map (held_value env hs) ?ts)"
    by (rule traverse_Inr) (simp add: pv)
  have tot: "sum_list (map (held_value env hs) ?ts) = computed_total env hs"
    by (simp add: computed_total_def)
  have st: "sector_totals_of (sectors_of env hs) ?P ?A ?ts []
      = Inr (fold (\<lambda>t acc. AList.update (held_sector env hs t)
                     (dict_get acc (held_sector env hs t) 0 + held_value env hs t) acc) ?ts [])"
    by (rule sector_totals_of_Inr) (simp_all add: gs pv)
  have ex: "sector_exposure_of st (divisor env hs w)
      = Inr (map (\<lambda>(k, v). (k, round2 (100 * v / divisor env hs w))) st)" for st
    by (rule sector_exposure_of_Inr) (rule divisor_nonzero)
  have ws: "weights_of ?P ?A (divisor env hs w) ?ts
      = Inr (map (\<lambda>t. held_value env hs t / divisor env hs w) ?ts)"
    by (rule weights_of_Inr) (simp_all add: divisor_nonzero pv)
  show ?thesis
    unfolding calculate_portfolio_metrics_def Let_def
    by (simp only: ne if_False a sum.case vals tot st ex ws divisor_def [symmetric])
qed

section \<open>calculate_portfolio_metrics: total, exposure and examples\<close>

lemma demo_metrics:
  "calculate_portfolio_metrics demo_market sector_rows NotGiven
     = Inr \<lparr>total_value = 3000, expected_return = 0, risk_level = ''N/A'',
            sector_exposure = [(''Technology'', 100), (''Financial'', 0)],
            diversification_score = 45, volatility = 0\<rparr>"
  by (simp add: calculate_portfolio_metrics_def prices_of_def sectors_of_def resolve_price_def
      resolve_sector_def position_value_def getitem_def dict_get_def guard_zero_def
      apply_override_def sector_exposure_of_def py_div_def round2_def diversification_of_def
      history_columns_def demo_market_def sector_rows_def Let_def)

lemma demo_metrics_override:
  "calculate_portfolio_metrics demo_market sector_rows (Given 6000)
     = Inr \<lparr>total_value = 6000, expected_return = 0, risk_level = ''N/A'',
            sector_exposure = [(''Technology'', 50), (''Financial'', 0)],
            diversification_score = 45, volatility = 0\<rparr>"
  by (simp add: calculate_portfolio_metrics_def prices_of_def sectors_of_def resolve_price_def
      resolve_sector_def position_value_def getitem_def dict_get_def guard_zero_def
      apply_override_def sector_exposure_of_def py_div_def round2_def diversification_of_def
      history_columns_def demo_market_def sector_rows_def Let_def)

lemma demo_metrics_zero:
  "calculate_portfolio_metrics demo_market sector_rows (Given 0)
     = Inr \<lparr>total_value = 1, expected_return = 0, risk_level = ''N/A'',
            sector_exposure = [(''Technology'', 300000), (''Financial'', 0)],
            diversification_score = 45, volatility = 0\<rparr>"
  by (simp add: calculate_portfolio_metrics_def prices_of_def sectors_of_def resolve_price_def
      resolve_sector_def position_value_def getitem_def dict_get_def guard_zero_def
      apply_override_def sector_exposure_of_def py_div_def round2_def diversification_of_def
      history_columns_def demo_market_def sector_rows_def Let_def)

lemma metrics_Inr_amounts:
  assumes "hs \<noteq> []" and "calculate_portfolio_metrics env hs w = Inr m"
  shows "list_all (\<lambda>h. amount h \<noteq> None) hs"
proof (rule ccontr)
  assume "\<not> list_all (\<lambda>h. amount h \<noteq> None) hs"
  then have "amounts_of hs [] = Inl ValueError" by (rule amounts_of_Inl)
  with assms(1) have "calculate_portfolio_metrics env hs w = Inl ValueError"
    by (simp add: calculate_portfolio_metrics_def)
  with assms(2) show False by simp
qed

lemma dict_get_empty: "dict_get [] k d = d"
  by (simp add: dict_get_def)

lemma exposure_lookup:
  "map_of (map (\<lambda>(k, v). (k, round2 (100 * v / T)))
            (fold (\<lambda>t acc. AList.update (held_sector env hs t)
                      (dict_get acc (held_sector env hs t) 0 + held_value env hs t) acc)
                  (map ticker hs) [])) s
     = (if s \<in> held_sector env hs ` ticker ` set hs
        then Some (round2 (100 * sector_sum env hs s / T)) else None)"
  by (simp add: map_of_map sector_fold_lookup dict_get_empty sector_sum_def image_image)

lemma metrics_total_and_exposure:
  assumes "hs \<noteq> []" and "calculate_portfolio_metrics env hs w = Inr m"
  shows "total_value m = round2 (divisor env hs w)"
    and "map_of (sector_exposure m) s
           = (if s \<in> held_sector env hs ` ticker ` set hs
              then Some (round2 (100 * sector_sum env hs s / divisor env hs w)) else None)"
    and "history_columns env (map ticker hs) \<noteq> [] \<Longrightarrow>
         expected_return m
           = round2 (port_return_of env (map ticker hs)
                       (map (\<lambda>t. held_value env hs t / divisor env hs w) (map ticker hs)))"
proof -
  have am: "list_all (\<lambda>h. amount h \<noteq> None) hs" using assms by (rule metrics_Inr_amounts)
  note r = metrics_result [OF assms(1) am, of env w, unfolded Let_def assms(2)]
  from r show "total_value m = round2 (divisor env hs w)"
    by (auto split: if_splits)
  from r have "sector_exposure m = map (\<lambda>(k, v). (k, round2 (100 * v / divisor env hs w)))
            (fold (\<lambda>t acc. AList.update (held_sector env hs t)
                      (dict_get acc (held_sector env hs t) 0 + held_value env hs t) acc)
                  (map ticker hs) [])"
    by (auto split: if_splits)
  then show "map_of (sector_exposure m) s
           = (if s \<in> held_sector env hs ` ticker ` set hs
              then Some (round2 (100 * sector_sum env hs s / divisor env hs w)) else None)"
    by (simp only: exposure_lookup)
  from r show "expected_return m
           = round2 (port_return_of env (map ticker hs)
                       (map (\<lambda>t. held_value env hs t / divisor env hs w) (map ticker hs)))"
    if "history_columns env (map ticker hs) \<noteq> []"
    using that by (auto split: if_splits)
qed

section \<open>calculate_portfolio_metrics: division and the override\<close>

lemma metrics_not_zero_division:
  "calculate_portfolio_metrics env hs w \<noteq> Inl ZeroDivisionError"
proof (cases "hs = []")
  case True
  then show ?thesis by (simp add: calculate_portfolio_metrics_def)
next
  case False
  show ?thesis
  proof (cases "list_all (\<lambda>h. amount h \<noteq> None) hs")
    case True
    show ?thesis
      unfolding metrics_result [OF False True] Let_def by simp
  next
    case no: False
    then have "amounts_of hs [] = Inl ValueError" by (rule amounts_of_Inl)
    with False show ?thesis by (simp add: calculate_portfolio_metrics_def)
  qed
qed

text \<open>
  C10: \<open>calculate_portfolio_metrics\<close> never raises ZeroDivisionError. The divisor of the
  sector percentages and of the weights is the computed or overridden total with 0 replaced
  by 1, so it is never 0; when that total is 0 the reported total is 1 and the percentage of
  a sector is 100 times the sector's value, that is, relative to 1.
\<close>

theorem never_divides_by_zero:
  "calculate_portfolio_metrics env hs w \<noteq> Inl ZeroDivisionError
   \<and> divisor env hs w \<noteq> 0
   \<and> (apply_override (computed_total env hs) w = 0 \<longrightarrow> divisor env hs w = 1)
   \<and> (hs \<noteq> [] \<and> apply_override (computed_total env hs) w = 0
        \<and> calculate_portfolio_metrics env hs w = Inr m \<longrightarrow>
        total_value m = 1
        \<and> (\<forall>s. map_of (sector_exposure m) s
                 = (if s \<in> held_sector env hs ` ticker ` set hs
                    then Some (round2 (100 * sector_sum env hs s)) else None)))"
proof (intro conjI impI allI)
  show "calculate_portfolio_metrics env hs w \<noteq> Inl ZeroDivisionError"
    by (rule metrics_not_zero_division)
  show "divisor env hs w \<noteq> 0" by (rule divisor_nonzero)
  show "divisor env hs w = 1" if "apply_override (computed_total env hs) w = 0"
    using that by (simp add: divisor_def guard_zero_def)
next
  assume a: "hs \<noteq> [] \<and> apply_override (computed_total env hs) w = 0
        \<and> calculate_portfolio_metrics env hs w = Inr m"
  then have d: "divisor env hs w = 1" by (simp add: divisor_def guard_zero_def)
  from a have "total_value m = round2 (divisor env hs w)"
    by (intro metrics_total_and_exposure) simp_all
  then show "total_value m = 1" by (simp add: d round2_def)
  fix s
  from a have "map_of (sector_exposure m) s
           = (if s \<in> held_sector env hs ` ticker ` set hs
              then Some (round2 (100 * sector_sum env hs s / divisor env hs w)) else None)"
    by (intro metrics_total_and_exposure) simp_all
  then show "map_of (sector_exposure m) s
                 = (if s \<in> held_sector env hs ` ticker ` set hs
                    then Some (round2 (100 * sector_sum env hs s)) else None)"
    by (simp add: d)
qed

theorem never_divides_by_zero_witness:
  "apply_override (computed_total demo_market sector_rows) (Given 0) = 0
   \<and> calculate_portfolio_metrics demo_market sector_rows (Given 0)
       = Inr \<lparr>total_value = 1, expected_return = 0, risk_level = ''N/A'',
              sector_exposure = [(''Technology'', 300000), (''Financial'', 0)],
              diversification_score = 45, volatility = 0\<rparr>
   \<and> divisor demo_market sector_rows (Given 0) = 1"
proof -
  have a: "apply_override (computed_total demo_market sector_rows) (Given 0) = 0"
    by (simp add: apply_override_def)
  with never_divides_by_zero [of demo_market sector_rows "Given 0"]
  have "divisor demo_market sector_rows (Given 0) = 1" by blast
  with a demo_metrics_zero show ?thesis by blast
qed

lemma computed_total_distinct:
  assumes "distinct (map ticker hs)"
  shows "computed_total env hs = (\<Sum>h \<leftarrow> hs. resolve_price env h * amount_of h)"
proof -
  have hv: "held_value env hs (ticker h) = resolve_price env h * amount_of h" if "h \<in> set hs" for h
    using last_row_distinct [OF assms that] by (simp add: held_value_def)
  have "computed_total env hs = sum_list (map (\<lambda>h. held_value env hs (ticker h)) hs)"
    by (simp add: computed_total_def comp_def)
  also have "\<dots> = sum_list (map (\<lambda>h. resolve_price env h * amount_of h) hs)"
    by (rule arg_cong [where f = sum_list], rule map_cong) (simp_all add: hv)
  finally show ?thesis .
qed

text \<open>
  C4, as the code has it: the reported total is the rounded divisor, and the divisor is the
  override when one is given that converts to a number (of any sign), otherwise the computed
  sum, with 0 replaced by 1; with one row per ticker the computed sum is the sum of price
  times amount over the holdings. The sector percentages and the weights behind the expected
  return have the computed per-ticker values as numerators and that divisor, hence the
  override when it is given, as denominator.
\<close>

theorem total_value_and_override:
  "(hs \<noteq> [] \<and> calculate_portfolio_metrics env hs w = Inr m \<longrightarrow>
      total_value m = round2 (divisor env hs w)
      \<and> (\<forall>s. map_of (sector_exposure m) s
               = (if s \<in> held_sector env hs ` ticker ` set hs
                  then Some (round2 (100 * sector_sum env hs s / divisor env hs w)) else None))
      \<and> (history_columns env (map ticker hs) \<noteq> [] \<longrightarrow>
           expected_return m
             = round2 (port_return_of env (map ticker hs)
                         (map (\<lambda>t. held_value env hs t / divisor env hs w) (map ticker hs)))))
   \<and> divisor env hs (Given r) = (if r = 0 then 1 else r)
   \<and> divisor env hs NotGiven = (if computed_total env hs = 0 then 1 else computed_total env hs)
   \<and> divisor env hs Unconvertible = divisor env hs NotGiven
   \<and> (distinct (map ticker hs) \<longrightarrow>
        computed_total env hs = (\<Sum>h \<leftarrow> hs. resolve_price env h * amount_of h))"
proof (intro conjI impI allI)
  assume a: "hs \<noteq> [] \<and> calculate_portfolio_metrics env hs w = Inr m"
  then show "total_value m = round2 (divisor env hs w)"
    by (intro metrics_total_and_exposure) simp_all
  from a show "map_of (sector_exposure m) s
               = (if s \<in> held_sector env hs ` ticker ` set hs
                  then Some (round2 (100 * sector_sum env hs s / divisor env hs w)) else None)" for s
    by (intro metrics_total_and_exposure) simp_all
  from a show "expected_return m
             = round2 (port_return_of env (map ticker hs)
                         (map (\<lambda>t. held_value env hs t / divisor env hs w) (map ticker hs)))"
    if "history_columns env (map ticker hs) \<noteq> []"
    using that by (intro metrics_total_and_exposure) simp_all
next
  show "divisor env hs (Given r) = (if r = 0 then 1 else r)"
    by (simp add: divisor_def guard_zero_def apply_override_def)
  show "divisor env hs NotGiven = (if computed_total env hs = 0 then 1 else computed_total env hs)"
    by (simp add: divisor_def guard_zero_def apply_override_def)
  show "divisor env hs Unconvertible = divisor env hs NotGiven"
    by (simp add: divisor_def apply_override_def)
  show "computed_total env hs = (\<Sum>h \<leftarrow> hs. resolve_price env h * amount_of h)"
    if "distinct (map ticker hs)"
    using that by (rule computed_total_distinct)
qed

theorem total_value_and_override_witness:
  "calculate_portfolio_metrics demo_market sector_rows (Given 6000)
     = Inr \<lparr>total_value = 6000, expected_return = 0, risk_level = ''N/A'',
            sector_exposure = [(''Technology'', 50), (''Financial'', 0)],
            diversification_score = 45, volatility = 0\<rparr>
   \<and> divisor demo_market sector_rows (Given 6000) = 6000
   \<and> computed_total demo_market sector_rows = 3000"
proof -
  have d: "distinct (map ticker sector_rows)" by (simp add: sector_rows_def)
  have "(\<Sum>h \<leftarrow> sector_rows. resolve_price demo_market h * amount_of h) = 3000"
    by (simp add: sector_rows_def resolve_price_def amount_of_def demo_market_def)
  with d total_value_and_override [of sector_rows demo_market "Given 6000" _ 6000]
  have "divisor demo_market sector_rows (Given 6000) = 6000
        \<and> computed_total demo_market sector_rows = 3000"
    by simp
  with demo_metrics_override show ?thesis by blast
qed

theorem override_changes_exposure_counterexample:
  "computed_total demo_market sector_rows = 3000
   \<and> calculate_portfolio_metrics demo_market sector_rows NotGiven
       = Inr \<lparr>total_value = 3000, expected_return = 0, risk_level = ''N/A'',
              sector_exposure = [(''Technology'', 100), (''Financial'', 0)],
              diversification_score = 45, volatility = 0\<rparr>
   \<and> calculate_portfolio_metrics demo_market sector_rows (Given 6000)
       = Inr \<lparr>total_value = 6000, expected_return = 0, risk_level = ''N/A'',
              sector_exposure = [(''Technology'', 50), (''Financial'', 0)],
              diversification_score = 45, volatility = 0\<rparr>"
proof -
  have "computed_total demo_market sector_rows = 3000"
    by (simp add: computed_total_def held_value_def last_row_def sector_rows_def
        resolve_price_def amount_of_def demo_market_def)
  with demo_metrics demo_metrics_override show ?thesis by blast
qed

section \<open>calculate_portfolio_metrics: the diversification score\<close>

lemma fold_update_distinct:
  "distinct (map fst d) \<Longrightarrow>
   distinct (map fst (fold (\<lambda>x d. AList.update (k x) (v x) d) xs d))"
  by (induction xs arbitrary: d) (simp_all add: AList.distinct_update)

lemma sectors_values:
  "snd ` set (sectors_of env hs) = held_sector env hs ` ticker ` set hs"
proof -
  have d: "distinct (map fst (sectors_of env hs))"
    unfolding sectors_of_def by (rule fold_update_distinct) simp
  have mem: "(t, s) \<in> set (sectors_of env hs) \<longleftrightarrow>
               (\<exists>h. last_row hs t = Some h \<and> s = resolve_sector env h)" for t s
    using map_of_eq_Some_iff [OF d, of t s] by (auto simp: sectors_lookup)
  show ?thesis
  proof (intro equalityI subsetI)
    fix s assume "s \<in> snd ` set (sectors_of env hs)"
    then obtain t where "(t, s) \<in> set (sectors_of env hs)" by auto
    then obtain h where l: "last_row hs t = Some h" and s: "s = resolve_sector env h"
      using mem by blast
    from l have "h \<in> set hs" and "ticker h = t" using last_row_Some by blast+
    with l s show "s \<in> held_sector env hs ` ticker ` set hs"
      by (auto simp: held_sector_def image_iff intro!: bexI [of _ h])
  next
    fix s assume "s \<in> held_sector env hs ` ticker ` set hs"
    then obtain h where h: "h \<in> set hs" and s: "s = held_sector env hs (ticker h)" by auto
    from h obtain h' where l: "last_row hs (ticker h) = Some h'" using last_row_ticker by blast
    with s have "(ticker h, s) \<in> set (sectors_of env hs)"
      using mem by (simp add: held_sector_def)
    then show "s \<in> snd ` set (sectors_of env hs)" by force
  qed
qed

lemma diversification_count:
  "diversification_of (sectors_of env hs) (map ticker hs)
     = min 100 (15 * card (held_sector env hs ` ticker ` set hs) + 5 * length hs)"
proof -
  have "length (remdups (map snd (sectors_of env hs))) = card (snd ` set (sectors_of env hs))"
    by (simp add: length_remdups_card_conv)
  then show ?thesis
    by (simp add: diversification_of_def sectors_values mult.commute)
qed

lemma held_sector_distinct:
  assumes "distinct (map ticker hs)"
  shows "held_sector env hs ` ticker ` set hs = resolve_sector env ` set hs"
proof -
  have "held_sector env hs (ticker h) = resolve_sector env h" if "h \<in> set hs" for h
    using last_row_distinct [OF assms that] by (simp add: held_sector_def)
  then show ?thesis by (auto simp: image_iff)
qed

lemma metrics_defined_returns:
  assumes "metrics_defined env hs"
  shows "\<exists>m. calculate_portfolio_metrics env hs w = Inr m"
proof (cases "hs = []")
  case True
  then show ?thesis by (simp add: calculate_portfolio_metrics_def)
next
  case False
  from assms have am: "list_all (\<lambda>h. amount h \<noteq> None) hs"
    and hist: "list_all (\<lambda>h. yf_history env (ticker h) = HistoryCloses) hs
         \<or> list_all (\<lambda>h. yf_history env (ticker h) \<noteq> HistoryCloses) hs"
    by (simp_all add: metrics_defined_def)
  from hist have "history_columns env (map ticker hs) = []
       \<or> \<not> (\<exists>t \<in> set (map ticker hs). t \<notin> set (history_columns env (map ticker hs)))"
    by (auto simp: history_columns_def list_all_iff filter_empty_conv)
  then show ?thesis
    unfolding metrics_result [OF False am] Let_def by auto
qed

text \<open>
  C8: whenever \<open>calculate_portfolio_metrics\<close> returns, for the empty list too, the
  diversification score is \<open>min(100, 15 * sectors + 5 * tickers)\<close>, where \<open>tickers\<close> is the
  number of holdings, each counted whatever its price, and \<open>sectors\<close> the number of distinct
  sectors held (with one row per ticker: of distinct sectors of the rows). A holding whose
  price is missing and cannot be looked up has price 0. The function returns whenever every
  amount converts and the price history resolves for all tickers or for none.
\<close>

theorem diversification_score_formula:
  "(calculate_portfolio_metrics env hs w = Inr m \<longrightarrow>
      diversification_score m
        = min 100 (15 * card (held_sector env hs ` ticker ` set hs) + 5 * length hs))
   \<and> (distinct (map ticker hs) \<longrightarrow>
        held_sector env hs ` ticker ` set hs = resolve_sector env ` set hs)
   \<and> (metrics_defined env hs \<longrightarrow> (\<exists>m. calculate_portfolio_metrics env hs w = Inr m))
   \<and> ((price h = Absent \<or> price h = Blank \<or> price h = NaN)
        \<and> (yf_info env (ticker h) = None
            \<or> (\<exists>i. yf_info env (ticker h) = Some i \<and> regularMarketPrice i = None)) \<longrightarrow>
        resolve_price env h = 0)"
proof (intro conjI impI)
  assume r: "calculate_portfolio_metrics env hs w = Inr m"
  show "diversification_score m
        = min 100 (15 * card (held_sector env hs ` ticker ` set hs) + 5 * length hs)"
  proof (cases "hs = []")
    case True
    with r show ?thesis by (auto simp: calculate_portfolio_metrics_def)
  next
    case False
    have am: "list_all (\<lambda>h. amount h \<noteq> None) hs" using False r by (rule metrics_Inr_amounts)
    from metrics_result [OF False am, of env w, unfolded Let_def r]
    have "diversification_score m = diversification_of (sectors_of env hs) (map ticker hs)"
      by (auto split: if_splits)
    then show ?thesis by (simp only: diversification_count)
  qed
next
  assume "distinct (map ticker hs)"
  then show "held_sector env hs ` ticker ` set hs = resolve_sector env ` set hs"
    by (rule held_sector_distinct)
next
  assume "metrics_defined env hs"
  then show "\<exists>m. calculate_portfolio_metrics env hs w = Inr m"
    by (rule metrics_defined_returns)
next
  assume "(price h = Absent \<or> price h = Blank \<or> price h = NaN)
        \<and> (yf_info env (ticker h) = None
            \<or> (\<exists>i. yf_info env (ticker h) = Some i \<and> regularMarketPrice i = None))"
  then show "resolve_price env h = 0"
    by (auto simp: resolve_price_def)
qed

theorem diversification_score_formula_witness:
  "calculate_portfolio_metrics demo_market sector_rows NotGiven
     = Inr \<lparr>total_value = 3000, expected_return = 0, risk_level = ''N/A'',
            sector_exposure = [(''Technology'', 100), (''Financial'', 0)],
            diversification_score = 45, volatility = 0\<rparr>
   \<and> metrics_defined demo_market sector_rows
   \<and> distinct (map ticker sector_rows)
   \<and> card (resolve_sector demo_market ` set sector_rows) = 2
   \<and> length sector_rows = 3
   \<and> min 100 (15 * card (held_sector demo_market sector_rows ` ticker ` set sector_rows)
               + 5 * length sector_rows) = (45 :: nat)"
proof -
  have d: "distinct (map ticker sector_rows)" by (simp add: sector_rows_def)
  have md: "metrics_defined demo_market sector_rows"
    by (simp add: metrics_defined_def sector_rows_def demo_market_def)
  have c: "card (resolve_sector demo_market ` set sector_rows) = 2"
    by (simp add: sector_rows_def resolve_sector_def)
  have l: "length sector_rows = 3" by (simp add: sector_rows_def)
  from diversification_score_formula [of demo_market sector_rows NotGiven
      "\<lparr>total_value = 3000, expected_return = 0, risk_level = ''N/A'',
            sector_exposure = [(''Technology'', 100), (''Financial'', 0)],
            diversification_score = 45, volatility = 0\<rparr>"] demo_metrics
  have "min 100 (15 * card (held_sector demo_market sector_rows ` ticker ` set sector_rows)
               + 5 * length sector_rows) = (45 :: nat)"
    by simp
  with demo_metrics md d c l show ?thesis by blast
qed

end
